theory Spec2Isabelle
  imports Complex_Main "HOL-Library.Log_Nat"
begin

section \<open>Numbers\<close>

text \<open>
  A JavaScript number is modelled as a real number. The extractor is given twice: first
  with exact arithmetic, which is enough for the properties that do not depend on how an
  operation rounds, then with every operation rounded to binary64, for the conversions of
  the round-trip time and the jitter. A field of an object that may be \<open>undefined\<close> has
  an \<open>option\<close> type, \<open>None\<close> being \<open>undefined\<close>.

  \<open>Math.round(x)\<close> is the integer nearest to \<open>x\<close>, a tie going towards plus infinity.
\<close>

definition Math_round :: "real \<Rightarrow> real" where
  "Math_round x = of_int \<lfloor>x + 1 / 2\<rfloor>"

section \<open>The statistics snapshot\<close>

text \<open>
  \<open>peerConnection.getStats()\<close> resolves to a map-like collection of reports whose
  \<open>forEach\<close> visits the reports in insertion order: a list. A report carries its
  \<open>type\<close> and the fields that \<open>analyzeStats\<close> reads.
\<close>

record report =
  type :: string
  mediaType :: "string option"
  state :: "string option"
  packetsLost :: "real option"
  packetsReceived :: "real option"
  jitter :: "real option"
  bytesReceived :: "real option"
  bytesSent :: "real option"
  currentRoundTripTime :: "real option"

text \<open>The local variables of \<open>analyzeStats\<close>, all initialised to 0.\<close>

record locals =
  v_packetLoss :: real
  v_rtt :: real
  v_jitter :: real
  v_bytesReceived :: real
  v_bytesSent :: real

text \<open>
  The object \<open>analyzeStats\<close> returns. Its key \<open>jitter\<close> is the field \<open>jitter'\<close> here,
  the name \<open>jitter\<close> being the report's.
\<close>

record metrics =
  packet_loss :: real
  rtt :: real
  jitter' :: real
  bytes_received :: real
  bytes_sent :: real

definition locals0 :: locals where
  "locals0 = \<lparr>v_packetLoss = 0, v_rtt = 0, v_jitter = 0, v_bytesReceived = 0, v_bytesSent = 0\<rparr>"

text \<open>The three blocks of the callback given to \<open>stats.forEach\<close>, in source order.\<close>

definition inbound_block :: "report \<Rightarrow> locals \<Rightarrow> locals" where
  "inbound_block r v =
     (if type r = ''inbound-rtp'' \<and> mediaType r = Some ''video'' then
        let v1 = (case (packetsLost r, packetsReceived r) of
                    (Some lost, Some received) \<Rightarrow>
                      let totalPackets = received + lost
                      in if totalPackets > 0
                         then v\<lparr>v_packetLoss := (lost / totalPackets) * 100\<rparr>
                         else v
                  | _ \<Rightarrow> v);
            v2 = (case jitter r of
                    Some j \<Rightarrow> v1\<lparr>v_jitter := j * 1000\<rparr>
                  | None \<Rightarrow> v1)
        in (case bytesReceived r of
              Some b \<Rightarrow> v2\<lparr>v_bytesReceived := b\<rparr>
            | None \<Rightarrow> v2)
      else v)"

definition outbound_block :: "report \<Rightarrow> locals \<Rightarrow> locals" where
  "outbound_block r v =
     (if type r = ''outbound-rtp'' \<and> mediaType r = Some ''video'' then
        (case bytesSent r of
           Some b \<Rightarrow> v\<lparr>v_bytesSent := b\<rparr>
         | None \<Rightarrow> v)
      else v)"

definition candidate_pair_block :: "report \<Rightarrow> locals \<Rightarrow> locals" where
  "candidate_pair_block r v =
     (if type r = ''candidate-pair'' \<and> state r = Some ''succeeded'' then
        (case currentRoundTripTime r of
           Some t \<Rightarrow> v\<lparr>v_rtt := t * 1000\<rparr>
         | None \<Rightarrow> v)
      else v)"

definition forEach_callback :: "report \<Rightarrow> locals \<Rightarrow> locals" where
  "forEach_callback r v = candidate_pair_block r (outbound_block r (inbound_block r v))"

definition analyzeStats :: "report list \<Rightarrow> metrics" where
  "analyzeStats stats =
     (let v = fold forEach_callback stats locals0
      in \<lparr>packet_loss = Math_round (v_packetLoss v * 10) / 10,
          rtt = Math_round (v_rtt v),
          jitter' = Math_round (v_jitter v * 10) / 10,
          bytes_received = v_bytesReceived v,
          bytes_sent = v_bytesSent v\<rparr>)"

section \<open>Describing what the extractor reads\<close>

text \<open>
  The definitions of this section are not part of the program. They name the reports that
  a block of the callback acts on, and build reports for the examples.
\<close>

definition find_last :: "('a \<Rightarrow> bool) \<Rightarrow> 'a list \<Rightarrow> 'a option" where
  "find_last P xs = List.find P (rev xs)"

definition is_inbound_video :: "report \<Rightarrow> bool" where
  "is_inbound_video r = (type r = ''inbound-rtp'' \<and> mediaType r = Some ''video'')"

definition is_outbound_video :: "report \<Rightarrow> bool" where
  "is_outbound_video r = (type r = ''outbound-rtp'' \<and> mediaType r = Some ''video'')"

definition is_succeeded_pair :: "report \<Rightarrow> bool" where
  "is_succeeded_pair r = (type r = ''candidate-pair'' \<and> state r = Some ''succeeded'')"

definition loss_counted :: "report \<Rightarrow> bool" where
  "loss_counted r =
     (is_inbound_video r \<and>
      (case (packetsLost r, packetsReceived r) of
         (Some lost, Some received) \<Rightarrow> received + lost > 0
       | _ \<Rightarrow> False))"

definition inbound_rtp :: "string \<Rightarrow> real option \<Rightarrow> real option \<Rightarrow> real option \<Rightarrow> real option \<Rightarrow> report" where
  "inbound_rtp kind lost received j b =
     \<lparr>type = ''inbound-rtp'', mediaType = Some kind, state = None,
      packetsLost = lost, packetsReceived = received, jitter = j,
      bytesReceived = b, bytesSent = None, currentRoundTripTime = None\<rparr>"

definition candidate_pair :: "string \<Rightarrow> real option \<Rightarrow> report" where
  "candidate_pair st t =
     \<lparr>type = ''candidate-pair'', mediaType = None, state = Some st,
      packetsLost = None, packetsReceived = None, jitter = None,
      bytesReceived = None, bytesSent = None, currentRoundTripTime = t\<rparr>"

definition outbound_rtp :: "string \<Rightarrow> real option \<Rightarrow> report" where
  "outbound_rtp kind b =
     \<lparr>type = ''outbound-rtp'', mediaType = Some kind, state = None,
      packetsLost = None, packetsReceived = None, jitter = None,
      bytesReceived = None, bytesSent = b, currentRoundTripTime = None\<rparr>"

definition jitter_counted :: "report \<Rightarrow> bool" where
  "jitter_counted r = (is_inbound_video r \<and> jitter r \<noteq> None)"

definition bytesReceived_counted :: "report \<Rightarrow> bool" where
  "bytesReceived_counted r = (is_inbound_video r \<and> bytesReceived r \<noteq> None)"

definition bytesSent_counted :: "report \<Rightarrow> bool" where
  "bytesSent_counted r = (is_outbound_video r \<and> bytesSent r \<noteq> None)"

definition rtt_counted :: "report \<Rightarrow> bool" where
  "rtt_counted r = (is_succeeded_pair r \<and> currentRoundTripTime r \<noteq> None)"

definition exact_loss :: "report \<Rightarrow> real" where
  "exact_loss r = the (packetsLost r) / (the (packetsLost r) + the (packetsReceived r)) * 100"


section \<open>The extractor in binary64 arithmetic\<close>

text \<open>
  The numbers of the program are binary64 values, and each arithmetic operation gives the
  binary64 value nearest to the exact result, a tie going to the even significand.
  \<open>binary64 x\<close> is that value for a real \<open>x\<close>: the magnitude is scaled so that the
  spacing of the subnormal numbers is 1, the bits above the 53 of the significand give the
  spacing at \<open>x\<close>, and the quotient by the spacing is rounded to the nearest integer.
  Results of magnitude \<open>2^1024\<close> and above, which the program has as infinities, are
  outside this model; the statements about it bound their inputs.
\<close>

definition round_even :: "real \<Rightarrow> int" where
  "round_even x =
     (let n = \<lfloor>x\<rfloor>; d = x - of_int n
      in if d < 1 / 2 then n
         else if 1 / 2 < d then n + 1
         else if even n then n else n + 1)"

definition binary64 :: "real \<Rightarrow> real" where
  "binary64 x =
     (let y = \<bar>x\<bar> * 2 ^ 1074;
          s = nat (bitlen \<lfloor>y\<rfloor> - 53)
      in sgn x * (of_int (round_even (y / 2 ^ s)) * 2 ^ s / 2 ^ 1074))"

text \<open>
  \<open>analyzeStats\<close> once more, statement by statement, with every sum, product and
  quotient rounded. \<open>Math.round\<close> is exact on a binary64 value: the integer it gives is a
  binary64 value too.
\<close>

definition inbound_block64 :: "report \<Rightarrow> locals \<Rightarrow> locals" where
  "inbound_block64 r v =
     (if type r = ''inbound-rtp'' \<and> mediaType r = Some ''video'' then
        let v1 = (case (packetsLost r, packetsReceived r) of
                    (Some lost, Some received) \<Rightarrow>
                      let totalPackets = binary64 (received + lost)
                      in if totalPackets > 0
                         then v\<lparr>v_packetLoss := binary64 (binary64 (lost / totalPackets) * 100)\<rparr>
                         else v
                  | _ \<Rightarrow> v);
            v2 = (case jitter r of
                    Some j \<Rightarrow> v1\<lparr>v_jitter := binary64 (j * 1000)\<rparr>
                  | None \<Rightarrow> v1)
        in (case bytesReceived r of
              Some b \<Rightarrow> v2\<lparr>v_bytesReceived := b\<rparr>
            | None \<Rightarrow> v2)
      else v)"

definition candidate_pair_block64 :: "report \<Rightarrow> locals \<Rightarrow> locals" where
  "candidate_pair_block64 r v =
     (if type r = ''candidate-pair'' \<and> state r = Some ''succeeded'' then
        (case currentRoundTripTime r of
           Some t \<Rightarrow> v\<lparr>v_rtt := binary64 (t * 1000)\<rparr>
         | None \<Rightarrow> v)
      else v)"

definition forEach_callback64 :: "report \<Rightarrow> locals \<Rightarrow> locals" where
  "forEach_callback64 r v = candidate_pair_block64 r (outbound_block r (inbound_block64 r v))"

definition analyzeStats64 :: "report list \<Rightarrow> metrics" where
  "analyzeStats64 stats =
     (let v = fold forEach_callback64 stats locals0
      in \<lparr>packet_loss = binary64 (Math_round (binary64 (v_packetLoss v * 10)) / 10),
          rtt = Math_round (v_rtt v),
          jitter' = binary64 (Math_round (binary64 (v_jitter v * 10)) / 10),
          bytes_received = v_bytesReceived v,
          bytes_sent = v_bytesSent v\<rparr>)"


section \<open>Thrown values and outcomes\<close>

text \<open>
  A value that a statement throws, or that a promise rejects with: a \<open>TypeError\<close> of the
  language (a property read on \<open>undefined\<close>), or any other error, named by its message.
  A function that may throw has an outcome: it returns with a state, or it raises a value
  in the state that the statements before the throw have built.
\<close>

datatype js_error = TypeError string | Thrown string

datatype 'a outcome = Returns 'a | Raises js_error 'a

fun state_of :: "'a outcome \<Rightarrow> 'a" where
  "state_of (Returns s) = s"
| "state_of (Raises e s) = s"

text \<open>\<open>try { body } catch (error) { handler }\<close>.\<close>

fun try_catch :: "'a outcome \<Rightarrow> (js_error \<Rightarrow> 'a \<Rightarrow> 'a outcome) \<Rightarrow> 'a outcome" where
  "try_catch (Returns s) handler = Returns s"
| "try_catch (Raises e s) handler = handler e s"

section \<open>The sampler loop: \<open>NetworkQualityMonitor\<close>\<close>

text \<open>
  The fields of a monitor object. \<open>peerConnection\<close> is a reference to the connection the
  constructor was given, \<open>None\<close> for \<open>null\<close>; \<open>monitoringInterval\<close> is the handle that
  \<open>setInterval\<close> returned, \<open>None\<close> for \<open>null\<close>. The field \<open>lastStats\<close> is never read
  and \<open>socket\<close> is the one socket of the page; both are left out.
\<close>

record NetworkQualityMonitor =
  peerConnection :: "nat option"
  isMonitoring :: bool
  monitoringInterval :: "nat option"

text \<open>The message of the event \<open>network_stats\<close>: the metrics and the room.\<close>

record network_stats = metrics +
  room :: string

text \<open>
  The state that the methods act on: the object store of the monitors (\<open>allocated\<close>
  counts the monitors constructed, the next one gets that reference), the timer table of
  the page (an entry is the handle, the monitor whose callback it runs, and the period in
  milliseconds), the messages emitted on the socket, what \<open>console.error\<close> has printed,
  the connections constructed and those closed, and the two fields of \<open>SimpleConfer\<close>
  that the lifecycle uses. Output of \<open>console.log\<close> is not recorded.
\<close>

record world =
  monitors :: "nat \<Rightarrow> NetworkQualityMonitor"
  allocated :: nat
  next_handle :: nat
  intervals :: "(nat \<times> nat \<times> nat) list"
  emitted :: "network_stats list"
  console_errors :: "js_error list"
  connections :: nat
  closed :: "nat list"
  app_peerConnection :: "nat option"
  app_networkMonitor :: "nat option"

text \<open>
  \<open>setInterval\<close> returns a handle that no timer of the page has had, greater than zero,
  and enters the callback in the table; \<open>clearInterval\<close> removes the entry.
\<close>

definition setInterval :: "nat \<Rightarrow> nat \<Rightarrow> world \<Rightarrow> nat \<times> world" where
  "setInterval self ms w =
     (next_handle w,
      w\<lparr>next_handle := Suc (next_handle w),
        intervals := intervals w @ [(next_handle w, self, ms)]\<rparr>)"

definition clearInterval :: "nat \<Rightarrow> world \<Rightarrow> world" where
  "clearInterval h w = w\<lparr>intervals := filter (\<lambda>e. fst e \<noteq> h) (intervals w)\<rparr>"

definition update_monitor :: "nat \<Rightarrow> (NetworkQualityMonitor \<Rightarrow> NetworkQualityMonitor) \<Rightarrow> world \<Rightarrow> world" where
  "update_monitor self f w = w\<lparr>monitors := (monitors w)(self := f (monitors w self))\<rparr>"

definition startMonitoring :: "nat \<Rightarrow> world \<Rightarrow> world" where
  "startMonitoring self w =
     (if isMonitoring (monitors w self) then w
      else
        let w1 = update_monitor self (\<lambda>m. m\<lparr>isMonitoring := True\<rparr>) w;
            (h, w2) = setInterval self 2000 w1
        in update_monitor self (\<lambda>m. m\<lparr>monitoringInterval := Some h\<rparr>) w2)"

text \<open>
  The test \<open>if (this.monitoringInterval)\<close> is one of truthiness: \<open>null\<close> and the
  number 0 fail it.
\<close>

definition stopMonitoring :: "nat \<Rightarrow> world \<Rightarrow> world" where
  "stopMonitoring self w =
     (if \<not> isMonitoring (monitors w self) then w
      else
        let w1 = update_monitor self (\<lambda>m. m\<lparr>isMonitoring := False\<rparr>) w
        in (case monitoringInterval (monitors w1 self) of
              Some h \<Rightarrow>
                if h \<noteq> 0
                then update_monitor self (\<lambda>m. m\<lparr>monitoringInterval := None\<rparr>) (clearInterval h w1)
                else w1
            | None \<Rightarrow> w1))"

text \<open>
  What a tick finds outside the monitor: the \<open>connectionState\<close> of its connection, what
  \<open>getStats()\<close> settles with, the value of the input \<open>roomInput\<close>, and whether
  \<open>socket.emit\<close> throws.
\<close>

record tick_env =
  connectionState :: string
  getStats :: "js_error + report list"
  roomInput :: string
  emit_error :: "js_error option"

text \<open>\<open>getCurrentRoom\<close>: the empty string is falsy, so \<open>||\<close> gives the default.\<close>

definition getCurrentRoom :: "tick_env \<Rightarrow> string" where
  "getCurrentRoom env = (if roomInput env = [] then ''default'' else roomInput env)"

definition socket_emit_network_stats :: "tick_env \<Rightarrow> network_stats \<Rightarrow> world \<Rightarrow> world outcome" where
  "socket_emit_network_stats env msg w =
     (case emit_error env of
        Some e \<Rightarrow> Raises e w
      | None \<Rightarrow> Returns (w\<lparr>emitted := emitted w @ [msg]\<rparr>))"

text \<open>
  The body of the \<open>try\<close> of \<open>collectAndSendStats\<close>. The object that \<open>analyzeStats\<close>
  returns is truthy, so the test \<open>if (networkMetrics)\<close> always passes.
\<close>

definition collect_and_send :: "nat \<Rightarrow> tick_env \<Rightarrow> world \<Rightarrow> world outcome" where
  "collect_and_send self env w =
     (case peerConnection (monitors w self) of
        None \<Rightarrow> Raises (TypeError ''getStats'') w
      | Some pc \<Rightarrow>
          (case getStats env of
             Inl e \<Rightarrow> Raises e w
           | Inr stats \<Rightarrow>
               let networkMetrics = analyzeStats stats
               in socket_emit_network_stats env
                    (metrics.extend networkMetrics \<lparr>room = getCurrentRoom env\<rparr>) w))"

definition collectAndSendStats :: "nat \<Rightarrow> tick_env \<Rightarrow> world \<Rightarrow> world outcome" where
  "collectAndSendStats self env w =
     try_catch (collect_and_send self env w)
       (\<lambda>error w'. Returns (w'\<lparr>console_errors := console_errors w' @ [error]\<rparr>))"

text \<open>The callback that \<open>startMonitoring\<close> gives to \<open>setInterval\<close>.\<close>

definition interval_callback :: "nat \<Rightarrow> tick_env \<Rightarrow> world \<Rightarrow> world outcome" where
  "interval_callback self env w =
     (if peerConnection (monitors w self) \<noteq> None \<and> connectionState env = ''connected''
      then collectAndSendStats self env w
      else Returns w)"

text \<open>The constructor: the fields of a new monitor.\<close>

definition new_monitor :: "nat option \<Rightarrow> NetworkQualityMonitor" where
  "new_monitor pc = \<lparr>peerConnection = pc, isMonitoring = False, monitoringInterval = None\<rparr>"

section \<open>The lifecycle: \<open>SimpleConfer\<close>\<close>

text \<open>
  \<open>createPeerConnection\<close> constructs a connection, which gets the next reference, and
  stores it in \<open>this.peerConnection\<close>, whatever was there.
\<close>

definition createPeerConnection :: "world \<Rightarrow> world" where
  "createPeerConnection w =
     w\<lparr>connections := Suc (connections w), app_peerConnection := Some (connections w)\<rparr>"

definition startNetworkMonitoring :: "world \<Rightarrow> world" where
  "startNetworkMonitoring w =
     (if app_networkMonitor w = None \<and> app_peerConnection w \<noteq> None then
        let self = allocated w;
            w1 = w\<lparr>monitors := (monitors w)(self := new_monitor (app_peerConnection w)),
                   allocated := Suc self,
                   app_networkMonitor := Some self\<rparr>
        in startMonitoring self w1
      else w)"

text \<open>
  \<open>startCall\<close> and \<open>handleOffer\<close> up to the call of \<open>startNetworkMonitoring\<close>; the
  statements after it (the offer, the answer, the status line) leave this state alone.
\<close>

definition startCall :: "world \<Rightarrow> world" where
  "startCall w = startNetworkMonitoring (createPeerConnection w)"



text \<open>The page after \<open>new SimpleConfer()\<close>: no connection, no monitor, no timer.\<close>

definition world0 :: world where
  "world0 =
     \<lparr>monitors = (\<lambda>_. new_monitor None), allocated = 0, next_handle = 1, intervals = [],
      emitted = [], console_errors = [], connections = 0, closed = [],
      app_peerConnection = None, app_networkMonitor = None\<rparr>"

datatype sampler_op = Start | Stop

fun sampler_step :: "nat \<Rightarrow> sampler_op \<Rightarrow> world \<Rightarrow> world" where
  "sampler_step self Start w = startMonitoring self w"
| "sampler_step self Stop w = stopMonitoring self w"



text \<open>The handles of the timers in the table that run the callback of a monitor.\<close>

definition timers_of :: "nat \<Rightarrow> world \<Rightarrow> nat list" where
  "timers_of self w = map fst (filter (\<lambda>e. fst (snd e) = self) (intervals w))"


section \<open>The quality reactor: \<open>updateNetworkUI\<close> and \<open>logNetworkEvent\<close>\<close>

text \<open>
  A string is a list of characters. The three icons are characters outside ASCII and are
  written by their code points. \<open>toUpperCase\<close> is modelled on the ASCII letters and
  leaves every other character as it is.
\<close>

definition toUpperCase :: "string \<Rightarrow> string" where
  "toUpperCase s =
     map (\<lambda>c. if 97 \<le> (of_char c :: nat) \<and> (of_char c :: nat) \<le> 122
              then char_of ((of_char c :: nat) - 32) else c) s"

definition digit :: "nat \<Rightarrow> char" where
  "digit d = char_of (48 + d)"

function show_nat :: "nat \<Rightarrow> string" where
  "show_nat n = (if n < 10 then [digit n] else show_nat (n div 10) @ [digit (n mod 10)])"
  by pat_completeness auto
termination
  by (relation "measure id") auto

declare show_nat.simps [simp del]

text \<open>The string of an integer-valued number, as a template literal prints it.\<close>

definition show_int :: "int \<Rightarrow> string" where
  "show_int i = (if i < 0 then ''-'' @ show_nat (nat (- i)) else show_nat (nat i))"

text \<open>
  \<open>x.toFixed(1)\<close> for a number below \<open>10^21\<close> in magnitude: the sign, then the
  nearest number of tenths of the magnitude (the larger on a tie), with one digit after
  the point.
\<close>

definition toFixed1 :: "real \<Rightarrow> string" where
  "toFixed1 x =
     (let n = nat \<lfloor>\<bar>x\<bar> * 10 + 1 / 2\<rfloor>
      in (if x < 0 then ''-'' else []) @ show_nat (n div 10) @ ''.'' @ show_nat (n mod 10))"

text \<open>How a template literal prints a string that may be \<open>undefined\<close>.\<close>

definition template :: "string option \<Rightarrow> string" where
  "template v = (case v of None \<Rightarrow> ''undefined'' | Some s \<Rightarrow> s)"

definition newline :: char where
  "newline = CHR 0x0A"

text \<open>
  \<open>s.split('\n')\<close>, \<open>lines.slice(-n)\<close> and \<open>lines.join('\n')\<close>. A string without the
  separator splits into itself alone, the empty string included.
\<close>

fun js_split :: "char \<Rightarrow> string \<Rightarrow> string list" where
  "js_split c [] = [[]]"
| "js_split c (x # xs) =
     (if x = c then [] # js_split c xs
      else (case js_split c xs of
              y # ys \<Rightarrow> (x # y) # ys
            | [] \<Rightarrow> [[x]]))"

definition slice_last :: "nat \<Rightarrow> 'a list \<Rightarrow> 'a list" where
  "slice_last n xs = drop (length xs - n) xs"

fun js_join :: "string \<Rightarrow> string list \<Rightarrow> string" where
  "js_join sep [] = []"
| "js_join sep [x] = x"
| "js_join sep (x # y # ys) = x @ sep @ js_join sep (y # ys)"

text \<open>
  The payload of the event \<open>quality_update\<close>. Each field may be missing. The numbers in
  \<open>stats\<close> are those the page has sent: a packet loss, and a round-trip time that is an
  integer.
\<close>

record quality_stats =
  s_packet_loss :: "real option"
  s_rtt :: "int option"

record quality_update =
  level :: "string option"
  stats :: "quality_stats option"
  recommendation :: "string option"

text \<open>
  An entry of \<open>qualityConfig\<close>, or another object that a lookup in it finds; a field that
  the object does not have is \<open>None\<close>.
\<close>

record config =
  icon :: "string option"
  text' :: "string option"
  class' :: "string option"

definition good :: config where
  "good = \<lparr>icon = Some ''U+1F7E2'', text' = Some ''Good Connection'', class' = Some ''quality-good''\<rparr>"

definition medium :: config where
  "medium = \<lparr>icon = Some ''U+1F7E1'', text' = Some ''Moderate Connection'',
             class' = Some ''quality-medium''\<rparr>"

definition poor :: config where
  "poor = \<lparr>icon = Some ''U+1F534'', text' = Some ''Poor Connection'', class' = Some ''quality-poor''\<rparr>"

text \<open>
  \<open>qualityConfig\<close> is an object literal, so a lookup that misses its own three keys goes
  on to \<open>Object.prototype\<close>, whose properties are functions and objects: truthy, and
  without the fields \<open>icon\<close>, \<open>text\<close> and \<open>class\<close>.
\<close>

definition Object_prototype_keys :: "string list" where
  "Object_prototype_keys =
     [''constructor'', ''hasOwnProperty'', ''isPrototypeOf'', ''propertyIsEnumerable'',
      ''toLocaleString'', ''toString'', ''valueOf'', ''__proto__'',
      ''__defineGetter__'', ''__defineSetter__'', ''__lookupGetter__'', ''__lookupSetter__'']"

definition qualityConfig :: "string \<Rightarrow> config option" where
  "qualityConfig key =
     (if key = ''good'' then Some good
      else if key = ''medium'' then Some medium
      else if key = ''poor'' then Some poor
      else if key \<in> set Object_prototype_keys
      then Some \<lparr>icon = None, text' = None, class' = None\<rparr>
      else None)"

text \<open>
  The elements of the page that the reactor writes: the \<open>textContent\<close> of each, and the
  \<open>className\<close> of \<open>networkStatus\<close>. They are named as the local constants of the source.
\<close>

record dom =
  qualityIcon :: string
  qualityText :: string
  networkStatus :: string
  packetLossElement :: string
  rttElement :: string
  networkLog :: string

text \<open>
  \<open>qualityConfig[level] || qualityConfig.good\<close>: a missing level is the key
  \<open>undefined\<close>, which no object on the chain has. Assigning \<open>undefined\<close> to
  \<open>textContent\<close> empties the element.
\<close>

definition select_config :: "string option \<Rightarrow> config" where
  "select_config lv =
     (case lv of
        None \<Rightarrow> good
      | Some l \<Rightarrow> (case qualityConfig l of None \<Rightarrow> good | Some c \<Rightarrow> c))"

definition updateNetworkUI :: "quality_update \<Rightarrow> dom \<Rightarrow> dom" where
  "updateNetworkUI data d =
     (let cfg = select_config (level data);
          d1 = d\<lparr>qualityIcon := (case icon cfg of None \<Rightarrow> [] | Some i \<Rightarrow> i)\<rparr>;
          d2 = d1\<lparr>qualityText := template (text' cfg) @ '' - '' @ template (recommendation data)\<rparr>;
          d3 = d2\<lparr>networkStatus := ''network-status '' @ template (class' cfg)\<rparr>
      in (case stats data of
            None \<Rightarrow> d3
          | Some s \<Rightarrow>
              d3\<lparr>packetLossElement :=
                    ''Packet Loss: '' @
                    (case s_packet_loss s of None \<Rightarrow> ''0'' | Some p \<Rightarrow> toFixed1 p) @ ''%'',
                  rttElement :=
                    ''Latency: '' @
                    (case s_rtt s of
                       None \<Rightarrow> ''0''
                     | Some t \<Rightarrow> if t = 0 then ''0'' else show_int t) @ ''ms''\<rparr>))"

text \<open>
  The line of the log for an event, without the newline that ends it. It is built only
  when \<open>data.level\<close> and \<open>data.stats\<close> are there.
\<close>

definition log_line :: "string \<Rightarrow> string \<Rightarrow> quality_stats \<Rightarrow> string" where
  "log_line timestamp l s =
     ''['' @ timestamp @ ''] Quality: '' @ toUpperCase l @ '' | '' @
     ''Packet Loss: '' @
     (case s_packet_loss s of None \<Rightarrow> ''undefined'' | Some p \<Rightarrow> toFixed1 p) @ ''% | '' @
     ''RTT: '' @ (case s_rtt s of None \<Rightarrow> ''undefined'' | Some t \<Rightarrow> show_int t) @ ''ms''"

text \<open>
  \<open>logNetworkEvent\<close>, with the time of day that \<open>toLocaleTimeString\<close> gives as an
  argument. \<open>data.level.toUpperCase()\<close> throws when the level is missing, and
  \<open>data.stats.packet_loss\<close> throws when the stats are.
\<close>

definition logNetworkEvent :: "quality_update \<Rightarrow> string \<Rightarrow> dom \<Rightarrow> dom outcome" where
  "logNetworkEvent data timestamp d =
     (case level data of
        None \<Rightarrow> Raises (TypeError ''toUpperCase'') d
      | Some l \<Rightarrow>
          (case stats data of
             None \<Rightarrow> Raises (TypeError ''packet_loss'') d
           | Some s \<Rightarrow>
               let logEntry = log_line timestamp l s @ [newline];
                   d1 = d\<lparr>networkLog := networkLog d @ logEntry\<rparr>;
                   lines = js_split newline (networkLog d1)
               in if length lines > 50
                  then Returns (d1\<lparr>networkLog := js_join [newline] (slice_last 50 lines)\<rparr>)
                  else Returns d1))"

text \<open>The listener that the constructor registers for \<open>quality_update\<close>.\<close>

definition on_quality_update :: "quality_update \<Rightarrow> string \<Rightarrow> dom \<Rightarrow> dom outcome" where
  "on_quality_update data timestamp d = logNetworkEvent data timestamp (updateNetworkUI data d)"

text \<open>
  A sequence of events, each with the time of day at its delivery. The socket calls the
  listener once for each; what a call throws does not reach the next.
\<close>

definition deliver :: "(quality_update \<times> string) list \<Rightarrow> dom \<Rightarrow> dom" where
  "deliver evs d = fold (\<lambda>(data, timestamp) d'. state_of (on_quality_update data timestamp d')) evs d"

definition dom0 :: dom where
  "dom0 = \<lparr>qualityIcon = [], qualityText = [], networkStatus = [], packetLossElement = [],
           rttElement = [], networkLog = []\<rparr>"


section \<open>Describing the states of the sampler, the lifecycle and the log\<close>

text \<open>
  The definitions of this section are not part of the program: they state invariants and
  name the runs and the examples that the theorems are about.
\<close>

definition wf_timers :: "world \<Rightarrow> bool" where
  "wf_timers w =
     (0 < next_handle w \<and> list_all (\<lambda>e. 0 < fst e \<and> fst e < next_handle w) (intervals w) \<and>
      distinct (map fst (intervals w)))"

definition sampler_inv :: "nat \<Rightarrow> world \<Rightarrow> bool" where
  "sampler_inv self w =
     (isMonitoring (monitors w self) = (monitoringInterval (monitors w self) \<noteq> None) \<and>
      timers_of self w =
        (case monitoringInterval (monitors w self) of None \<Rightarrow> [] | Some h \<Rightarrow> [h]))"

definition sampler_run :: "nat \<Rightarrow> sampler_op list \<Rightarrow> world \<Rightarrow> world" where
  "sampler_run self ops w = fold (sampler_step self) ops w"

definition tick_connected :: "nat \<Rightarrow> tick_env \<Rightarrow> world \<Rightarrow> bool" where
  "tick_connected self env w =
     (peerConnection (monitors w self) \<noteq> None \<and> connectionState env = ''connected'')"



definition lines_text :: "string list \<Rightarrow> string" where
  "lines_text bs = concat (map (\<lambda>b. b @ [newline]) bs)"

definition wf_event :: "quality_update \<times> string \<Rightarrow> bool" where
  "wf_event e =
     (case e of (data, timestamp) \<Rightarrow>
        (case (level data, stats data) of
           (Some l, Some s) \<Rightarrow> newline \<notin> set l \<and> newline \<notin> set timestamp
         | _ \<Rightarrow> False))"

definition entry_of :: "quality_update \<times> string \<Rightarrow> string" where
  "entry_of e = (case e of (data, timestamp) \<Rightarrow> log_line timestamp (the (level data)) (the (stats data)))"

definition example_event :: "nat \<Rightarrow> quality_update \<times> string" where
  "example_event i =
     (\<lparr>level = Some ''good'', stats = Some \<lparr>s_packet_loss = Some 0, s_rtt = Some (int i)\<rparr>,
       recommendation = Some ''ok''\<rparr>, ''12:00:00'')"


section \<open>The extractor: what each field is computed from\<close>

lemma find_last_snoc: "find_last P (xs @ [x]) = (if P x then Some x else find_last P xs)"
  by (simp add: find_last_def)

lemma find_last_Nil: "find_last P [] = None"
  by (simp add: find_last_def)


lemma cb_packetLoss:
  "v_packetLoss (forEach_callback r v) = (if loss_counted r then exact_loss r else v_packetLoss v)"
  by (simp add: forEach_callback_def inbound_block_def outbound_block_def
        candidate_pair_block_def loss_counted_def is_inbound_video_def exact_loss_def Let_def add.commute
        split: option.splits)

lemma cb_jitter:
  "v_jitter (forEach_callback r v) =
     (if jitter_counted r then the (jitter r) * 1000 else v_jitter v)"
  by (simp add: forEach_callback_def inbound_block_def outbound_block_def
        candidate_pair_block_def jitter_counted_def is_inbound_video_def Let_def
        split: option.splits)

lemma cb_bytesReceived:
  "v_bytesReceived (forEach_callback r v) =
     (if bytesReceived_counted r then the (bytesReceived r) else v_bytesReceived v)"
  by (simp add: forEach_callback_def inbound_block_def outbound_block_def
        candidate_pair_block_def bytesReceived_counted_def is_inbound_video_def Let_def
        split: option.splits)

lemma cb_bytesSent:
  "v_bytesSent (forEach_callback r v) =
     (if bytesSent_counted r then the (bytesSent r) else v_bytesSent v)"
  by (simp add: forEach_callback_def inbound_block_def outbound_block_def
        candidate_pair_block_def bytesSent_counted_def is_outbound_video_def Let_def
        split: option.splits)

lemma cb_rtt:
  "v_rtt (forEach_callback r v) =
     (if rtt_counted r then the (currentRoundTripTime r) * 1000 else v_rtt v)"
  by (simp add: forEach_callback_def inbound_block_def outbound_block_def
        candidate_pair_block_def rtt_counted_def is_succeeded_pair_def Let_def
        split: option.splits)

lemma fold_last:
  assumes "\<And>r v. g (f r v) = (if P r then h r else g v)"
  shows "g (fold f xs v) = (case find_last P xs of None \<Rightarrow> g v | Some r \<Rightarrow> h r)"
proof (induction xs rule: rev_induct)
  case Nil
  show ?case by (simp add: find_last_Nil)
next
  case (snoc x xs)
  show ?case by (simp add: find_last_snoc assms snoc)
qed

lemmas fold_packetLoss = fold_last [of v_packetLoss forEach_callback, OF cb_packetLoss]
lemmas fold_jitter = fold_last [of v_jitter forEach_callback, OF cb_jitter]
lemmas fold_bytesReceived = fold_last [of v_bytesReceived forEach_callback, OF cb_bytesReceived]
lemmas fold_bytesSent = fold_last [of v_bytesSent forEach_callback, OF cb_bytesSent]
lemmas fold_rtt = fold_last [of v_rtt forEach_callback, OF cb_rtt]


subsection \<open>Rounding\<close>

lemma Math_round_Ints: "Math_round x \<in> \<int>"
  by (simp add: Math_round_def)

lemma Math_round_near: "\<bar>Math_round x - x\<bar> \<le> 1 / 2"
  unfolding Math_round_def by linarith








subsection \<open>The fields of the result\<close>

lemma find_last_Some: "find_last P xs = Some r \<Longrightarrow> P r \<and> r \<in> set xs"
  by (induction xs rule: rev_induct) (auto simp: find_last_Nil find_last_snoc split: if_splits)

lemma find_last_None: "find_last P xs = None \<longleftrightarrow> (\<forall>x\<in>set xs. \<not> P x)"
  unfolding find_last_def by (auto simp: find_None_iff)

lemma analyzeStats_packet_loss:
  "packet_loss (analyzeStats rs) =
     (case find_last loss_counted rs of None \<Rightarrow> 0
      | Some r \<Rightarrow> Math_round (exact_loss r * 10) / 10)"
  by (simp add: analyzeStats_def Let_def fold_packetLoss locals0_def Math_round_def split: option.splits)

lemma analyzeStats_jitter:
  "jitter' (analyzeStats rs) =
     (case find_last jitter_counted rs of None \<Rightarrow> 0
      | Some r \<Rightarrow> Math_round (the (jitter r) * 1000 * 10) / 10)"
  by (simp add: analyzeStats_def Let_def fold_jitter locals0_def Math_round_def split: option.splits)

lemma analyzeStats_rtt:
  "rtt (analyzeStats rs) =
     (case find_last rtt_counted rs of None \<Rightarrow> 0
      | Some r \<Rightarrow> Math_round (the (currentRoundTripTime r) * 1000))"
  by (simp add: analyzeStats_def Let_def fold_rtt locals0_def Math_round_def split: option.splits)

lemma analyzeStats_bytes_received:
  "bytes_received (analyzeStats rs) =
     (case find_last bytesReceived_counted rs of None \<Rightarrow> 0
      | Some r \<Rightarrow> the (bytesReceived r))"
  by (simp add: analyzeStats_def Let_def fold_bytesReceived locals0_def split: option.splits)

lemma analyzeStats_bytes_sent:
  "bytes_sent (analyzeStats rs) =
     (case find_last bytesSent_counted rs of None \<Rightarrow> 0
      | Some r \<Rightarrow> the (bytesSent r))"
  by (simp add: analyzeStats_def Let_def fold_bytesSent locals0_def split: option.splits)









subsection \<open>Reports that are not read\<close>

lemma find_last_filter:
  assumes "\<And>x. P x \<Longrightarrow> Q x"
  shows "find_last P (filter Q xs) = find_last P xs"
proof (induction xs rule: rev_induct)
  case Nil
  show ?case by simp
next
  case (snoc x xs)
  show ?case using assms snoc by (auto simp: find_last_snoc)
qed

lemma find_last_single: "P r \<Longrightarrow> find_last P [r] = Some r"
  by (simp add: find_last_def)

lemma loss_counted_inbound: "loss_counted r \<Longrightarrow> is_inbound_video r"
  by (simp add: loss_counted_def)

lemma jitter_counted_inbound: "jitter_counted r \<Longrightarrow> is_inbound_video r"
  by (simp add: jitter_counted_def)

lemma bytesReceived_counted_inbound: "bytesReceived_counted r \<Longrightarrow> is_inbound_video r"
  by (simp add: bytesReceived_counted_def)

lemma bytesSent_counted_outbound: "bytesSent_counted r \<Longrightarrow> is_outbound_video r"
  by (simp add: bytesSent_counted_def)

lemma rtt_counted_pair: "rtt_counted r \<Longrightarrow> is_succeeded_pair r"
  by (simp add: rtt_counted_def)


text \<open>
  Claim C4. \<open>analyzeStats\<close> is a total function of the snapshot: no statement of it can
  raise on a list of reports, and it writes its own local variables only. Each field of
  the result is 0 when the counter it is derived from is absent from every report the
  field is read from.
\<close>

theorem analyzeStats_absent_zero:
  "((\<forall>r\<in>set rs. is_inbound_video r \<longrightarrow> packetsLost r = None \<or> packetsReceived r = None)
      \<longrightarrow> packet_loss (analyzeStats rs) = 0) \<and>
   ((\<forall>r\<in>set rs. is_inbound_video r \<longrightarrow> jitter r = None)
      \<longrightarrow> jitter' (analyzeStats rs) = 0) \<and>
   ((\<forall>r\<in>set rs. is_inbound_video r \<longrightarrow> bytesReceived r = None)
      \<longrightarrow> bytes_received (analyzeStats rs) = 0) \<and>
   ((\<forall>r\<in>set rs. is_outbound_video r \<longrightarrow> bytesSent r = None)
      \<longrightarrow> bytes_sent (analyzeStats rs) = 0) \<and>
   ((\<forall>r\<in>set rs. is_succeeded_pair r \<longrightarrow> currentRoundTripTime r = None)
      \<longrightarrow> rtt (analyzeStats rs) = 0)"
proof -
  have a: "packet_loss (analyzeStats rs) = 0"
    if "\<forall>r\<in>set rs. is_inbound_video r \<longrightarrow> packetsLost r = None \<or> packetsReceived r = None"
  proof -
    have "find_last loss_counted rs = None"
      unfolding find_last_None using that by (auto simp: loss_counted_def split: option.splits)
    then show ?thesis by (simp add: analyzeStats_packet_loss)
  qed
  have b: "jitter' (analyzeStats rs) = 0"
    if "\<forall>r\<in>set rs. is_inbound_video r \<longrightarrow> jitter r = None"
  proof -
    have "find_last jitter_counted rs = None"
      unfolding find_last_None using that by (auto simp: jitter_counted_def)
    then show ?thesis by (simp add: analyzeStats_jitter)
  qed
  have c: "bytes_received (analyzeStats rs) = 0"
    if "\<forall>r\<in>set rs. is_inbound_video r \<longrightarrow> bytesReceived r = None"
  proof -
    have "find_last bytesReceived_counted rs = None"
      unfolding find_last_None using that by (auto simp: bytesReceived_counted_def)
    then show ?thesis by (simp add: analyzeStats_bytes_received)
  qed
  have d: "bytes_sent (analyzeStats rs) = 0"
    if "\<forall>r\<in>set rs. is_outbound_video r \<longrightarrow> bytesSent r = None"
  proof -
    have "find_last bytesSent_counted rs = None"
      unfolding find_last_None using that by (auto simp: bytesSent_counted_def)
    then show ?thesis by (simp add: analyzeStats_bytes_sent)
  qed
  have e: "rtt (analyzeStats rs) = 0"
    if "\<forall>r\<in>set rs. is_succeeded_pair r \<longrightarrow> currentRoundTripTime r = None"
  proof -
    have "find_last rtt_counted rs = None"
      unfolding find_last_None using that by (auto simp: rtt_counted_def)
    then show ?thesis by (simp add: analyzeStats_rtt)
  qed
  from a b c d e show ?thesis by blast
qed


text \<open>Claim C4, witness: three reports of the kinds that are read, none with a usable counter.\<close>

theorem analyzeStats_absent_zero_witness:
  "analyzeStats [inbound_rtp ''video'' None (Some 95) None None, outbound_rtp ''video'' None,
                 candidate_pair ''succeeded'' None]
     = \<lparr>packet_loss = 0, rtt = 0, jitter' = 0, bytes_received = 0, bytes_sent = 0\<rparr>"
proof -
  let ?s = "[inbound_rtp ''video'' None (Some 95) None None, outbound_rtp ''video'' None,
             candidate_pair ''succeeded'' None]"
  have h1: "\<forall>r\<in>set ?s. is_inbound_video r \<longrightarrow> packetsLost r = None \<or> packetsReceived r = None"
    by (simp add: inbound_rtp_def outbound_rtp_def candidate_pair_def is_inbound_video_def)
  have h2: "\<forall>r\<in>set ?s. is_inbound_video r \<longrightarrow> jitter r = None"
    by (simp add: inbound_rtp_def outbound_rtp_def candidate_pair_def is_inbound_video_def)
  have h3: "\<forall>r\<in>set ?s. is_inbound_video r \<longrightarrow> bytesReceived r = None"
    by (simp add: inbound_rtp_def outbound_rtp_def candidate_pair_def is_inbound_video_def)
  have h4: "\<forall>r\<in>set ?s. is_outbound_video r \<longrightarrow> bytesSent r = None"
    by (simp add: inbound_rtp_def outbound_rtp_def candidate_pair_def is_outbound_video_def)
  have h5: "\<forall>r\<in>set ?s. is_succeeded_pair r \<longrightarrow> currentRoundTripTime r = None"
    by (simp add: inbound_rtp_def outbound_rtp_def candidate_pair_def is_succeeded_pair_def)
  have "packet_loss (analyzeStats ?s) = 0 \<and> jitter' (analyzeStats ?s) = 0 \<and>
        bytes_received (analyzeStats ?s) = 0 \<and> bytes_sent (analyzeStats ?s) = 0 \<and>
        rtt (analyzeStats ?s) = 0"
    using analyzeStats_absent_zero [of ?s] h1 h2 h3 h4 h5 by blast
  then show ?thesis
    by (cases "analyzeStats ?s") simp
qed



text \<open>
  Claim C10, as amended. Packet loss, jitter and bytes received depend on the inbound video
  reports only, bytes sent on the outbound video reports only, the round-trip time on the
  succeeded candidate pairs only. A snapshot without video reports gives 0 for packet loss,
  jitter and both byte counters. Among several matching reports, each field is the one
  computed from the last report, in iteration order, that carries the counter of that field
  (for the packet loss: both packet counters, with a sum above 0).
\<close>

theorem analyzeStats_report_sources:
  "packet_loss (analyzeStats rs) = packet_loss (analyzeStats (filter is_inbound_video rs)) \<and>
   jitter' (analyzeStats rs) = jitter' (analyzeStats (filter is_inbound_video rs)) \<and>
   bytes_received (analyzeStats rs) = bytes_received (analyzeStats (filter is_inbound_video rs)) \<and>
   bytes_sent (analyzeStats rs) = bytes_sent (analyzeStats (filter is_outbound_video rs)) \<and>
   rtt (analyzeStats rs) = rtt (analyzeStats (filter is_succeeded_pair rs)) \<and>
   ((\<forall>r\<in>set rs. mediaType r \<noteq> Some ''video'') \<longrightarrow>
      packet_loss (analyzeStats rs) = 0 \<and> jitter' (analyzeStats rs) = 0 \<and>
      bytes_received (analyzeStats rs) = 0 \<and> bytes_sent (analyzeStats rs) = 0) \<and>
   packet_loss (analyzeStats rs) =
     (case find_last loss_counted rs of None \<Rightarrow> 0 | Some r \<Rightarrow> packet_loss (analyzeStats [r])) \<and>
   jitter' (analyzeStats rs) =
     (case find_last jitter_counted rs of None \<Rightarrow> 0 | Some r \<Rightarrow> jitter' (analyzeStats [r])) \<and>
   bytes_received (analyzeStats rs) =
     (case find_last bytesReceived_counted rs of None \<Rightarrow> 0
      | Some r \<Rightarrow> bytes_received (analyzeStats [r])) \<and>
   bytes_sent (analyzeStats rs) =
     (case find_last bytesSent_counted rs of None \<Rightarrow> 0 | Some r \<Rightarrow> bytes_sent (analyzeStats [r])) \<and>
   rtt (analyzeStats rs) =
     (case find_last rtt_counted rs of None \<Rightarrow> 0 | Some r \<Rightarrow> rtt (analyzeStats [r]))"
proof -
  have f1: "packet_loss (analyzeStats rs) = packet_loss (analyzeStats (filter is_inbound_video rs))"
    by (simp add: analyzeStats_packet_loss find_last_filter [of loss_counted, OF loss_counted_inbound])
  have f2: "jitter' (analyzeStats rs) = jitter' (analyzeStats (filter is_inbound_video rs))"
    by (simp add: analyzeStats_jitter find_last_filter [of jitter_counted, OF jitter_counted_inbound])
  have f3: "bytes_received (analyzeStats rs) = bytes_received (analyzeStats (filter is_inbound_video rs))"
    by (simp add: analyzeStats_bytes_received
        find_last_filter [of bytesReceived_counted, OF bytesReceived_counted_inbound])
  have f4: "bytes_sent (analyzeStats rs) = bytes_sent (analyzeStats (filter is_outbound_video rs))"
    by (simp add: analyzeStats_bytes_sent
        find_last_filter [of bytesSent_counted, OF bytesSent_counted_outbound])
  have f5: "rtt (analyzeStats rs) = rtt (analyzeStats (filter is_succeeded_pair rs))"
    by (simp add: analyzeStats_rtt find_last_filter [of rtt_counted, OF rtt_counted_pair])
  have audio: "packet_loss (analyzeStats rs) = 0 \<and> jitter' (analyzeStats rs) = 0 \<and>
      bytes_received (analyzeStats rs) = 0 \<and> bytes_sent (analyzeStats rs) = 0"
    if "\<forall>r\<in>set rs. mediaType r \<noteq> Some ''video''"
  proof -
    have "find_last loss_counted rs = None" "find_last jitter_counted rs = None"
      "find_last bytesReceived_counted rs = None" "find_last bytesSent_counted rs = None"
      unfolding find_last_None using that
      by (auto simp: loss_counted_def jitter_counted_def bytesReceived_counted_def
          bytesSent_counted_def is_inbound_video_def is_outbound_video_def)
    then show ?thesis
      by (simp add: analyzeStats_packet_loss analyzeStats_jitter analyzeStats_bytes_received
          analyzeStats_bytes_sent)
  qed
  have l1: "packet_loss (analyzeStats rs) =
     (case find_last loss_counted rs of None \<Rightarrow> 0 | Some r \<Rightarrow> packet_loss (analyzeStats [r]))"
  proof (cases "find_last loss_counted rs")
    case None
    then show ?thesis by (simp add: analyzeStats_packet_loss)
  next
    case (Some r)
    then have "loss_counted r" by (simp add: find_last_Some)
    then have "packet_loss (analyzeStats [r]) = Math_round (exact_loss r * 10) / 10"
      by (simp add: analyzeStats_packet_loss [of "[r]"] find_last_single)
    then show ?thesis using Some by (simp add: analyzeStats_packet_loss [of rs])
  qed
  have l2: "jitter' (analyzeStats rs) =
     (case find_last jitter_counted rs of None \<Rightarrow> 0 | Some r \<Rightarrow> jitter' (analyzeStats [r]))"
  proof (cases "find_last jitter_counted rs")
    case None
    then show ?thesis by (simp add: analyzeStats_jitter)
  next
    case (Some r)
    then have "jitter_counted r" by (simp add: find_last_Some)
    then have "jitter' (analyzeStats [r]) = Math_round (the (jitter r) * 1000 * 10) / 10"
      by (simp add: analyzeStats_jitter [of "[r]"] find_last_single)
    then show ?thesis using Some by (simp add: analyzeStats_jitter [of rs])
  qed
  have l3: "bytes_received (analyzeStats rs) =
     (case find_last bytesReceived_counted rs of None \<Rightarrow> 0
      | Some r \<Rightarrow> bytes_received (analyzeStats [r]))"
  proof (cases "find_last bytesReceived_counted rs")
    case None
    then show ?thesis by (simp add: analyzeStats_bytes_received)
  next
    case (Some r)
    then have "bytesReceived_counted r" by (simp add: find_last_Some)
    then have "bytes_received (analyzeStats [r]) = the (bytesReceived r)"
      by (simp add: analyzeStats_bytes_received [of "[r]"] find_last_single)
    then show ?thesis using Some by (simp add: analyzeStats_bytes_received [of rs])
  qed
  have l4: "bytes_sent (analyzeStats rs) =
     (case find_last bytesSent_counted rs of None \<Rightarrow> 0 | Some r \<Rightarrow> bytes_sent (analyzeStats [r]))"
  proof (cases "find_last bytesSent_counted rs")
    case None
    then show ?thesis by (simp add: analyzeStats_bytes_sent)
  next
    case (Some r)
    then have "bytesSent_counted r" by (simp add: find_last_Some)
    then have "bytes_sent (analyzeStats [r]) = the (bytesSent r)"
      by (simp add: analyzeStats_bytes_sent [of "[r]"] find_last_single)
    then show ?thesis using Some by (simp add: analyzeStats_bytes_sent [of rs])
  qed
  have l5: "rtt (analyzeStats rs) =
     (case find_last rtt_counted rs of None \<Rightarrow> 0 | Some r \<Rightarrow> rtt (analyzeStats [r]))"
  proof (cases "find_last rtt_counted rs")
    case None
    then show ?thesis by (simp add: analyzeStats_rtt)
  next
    case (Some r)
    then have "rtt_counted r" by (simp add: find_last_Some)
    then have "rtt (analyzeStats [r]) = Math_round (the (currentRoundTripTime r) * 1000)"
      by (simp add: analyzeStats_rtt [of "[r]"] find_last_single)
    then show ?thesis using Some by (simp add: analyzeStats_rtt [of rs])
  qed
  from f1 f2 f3 f4 f5 audio l1 l2 l3 l4 l5 show ?thesis by blast
qed


text \<open>
  Claim C10, counterexample to "the last matching report determines each field": the last
  inbound video report has received no packet yet, and the packet loss is the 5 percent of
  the report before it, not the 0 that the last report alone gives.
\<close>

theorem last_report_counterexample:
  "packet_loss (analyzeStats [inbound_rtp ''video'' (Some 5) (Some 95) (Some 0) (Some 0),
                              inbound_rtp ''video'' (Some 0) (Some 0) (Some 0) (Some 0)]) = 5 \<and>
   packet_loss (analyzeStats [last (filter is_inbound_video
                             [inbound_rtp ''video'' (Some 5) (Some 95) (Some 0) (Some 0),
                              inbound_rtp ''video'' (Some 0) (Some 0) (Some 0) (Some 0)])]) = 0"
  by (simp add: analyzeStats_def forEach_callback_def inbound_block_def outbound_block_def
      candidate_pair_block_def inbound_rtp_def is_inbound_video_def locals0_def
      Math_round_def Let_def)



text \<open>Claim C10, witness: a snapshot of audio reports with all counters present.\<close>

theorem analyzeStats_report_sources_witness:
  "packet_loss (analyzeStats [inbound_rtp ''audio'' (Some 5) (Some 95) (Some (1 / 100)) (Some 4000),
                              outbound_rtp ''audio'' (Some 3000)]) = 0 \<and>
   jitter' (analyzeStats [inbound_rtp ''audio'' (Some 5) (Some 95) (Some (1 / 100)) (Some 4000),
                          outbound_rtp ''audio'' (Some 3000)]) = 0 \<and>
   bytes_received (analyzeStats [inbound_rtp ''audio'' (Some 5) (Some 95) (Some (1 / 100)) (Some 4000),
                                 outbound_rtp ''audio'' (Some 3000)]) = 0 \<and>
   bytes_sent (analyzeStats [inbound_rtp ''audio'' (Some 5) (Some 95) (Some (1 / 100)) (Some 4000),
                             outbound_rtp ''audio'' (Some 3000)]) = 0"
proof -
  let ?s = "[inbound_rtp ''audio'' (Some 5) (Some 95) (Some (1 / 100)) (Some 4000),
             outbound_rtp ''audio'' (Some 3000)]"
  have h: "\<forall>r\<in>set ?s. mediaType r \<noteq> Some ''video''"
    by (simp add: inbound_rtp_def outbound_rtp_def)
  show ?thesis
    using analyzeStats_report_sources [of ?s] h by blast
qed

section \<open>The extractor in binary64 arithmetic: round-trip time and jitter\<close>

subsection \<open>How far a rounded result is from the exact one\<close>

lemma round_even_near: "\<bar>of_int (round_even x) - x\<bar> \<le> 1 / 2"
proof -
  have "of_int \<lfloor>x\<rfloor> \<le> x" "x < of_int \<lfloor>x\<rfloor> + 1" by linarith+
  then show ?thesis
    unfolding round_even_def Let_def by (auto simp: abs_le_iff)
qed

lemma binary64_zero: "binary64 0 = 0"
  unfolding binary64_def Let_def by (simp only: sgn_0 mult_zero_left)

text \<open>The rounding with the scale of the subnormal numbers as a parameter.\<close>

lemma binary64_scaled:
  assumes "S = (2::real) ^ 1074"
  shows "binary64 x =
     sgn x * (of_int (round_even (\<bar>x\<bar> * S / 2 ^ nat (bitlen \<lfloor>\<bar>x\<bar> * S\<rfloor> - 53)))
              * 2 ^ nat (bitlen \<lfloor>\<bar>x\<bar> * S\<rfloor> - 53) / S)"
  unfolding binary64_def Let_def assms ..

lemma scale_positive: "(0::real) < 2 ^ 1074"
  by (rule zero_less_power) simp

lemma binary64_step:
  assumes S: "S = (2::real) ^ 1074"
  shows "\<bar>binary64 x - x\<bar> \<le> 2 ^ nat (bitlen \<lfloor>\<bar>x\<bar> * S\<rfloor> - 53) / (2 * S)"
proof -
  have Spos: "0 < S" unfolding S by (rule scale_positive)
  define s where "s = nat (bitlen \<lfloor>\<bar>x\<bar> * S\<rfloor> - 53)"
  define q where "q = \<bar>x\<bar> * S / 2 ^ s"
  have b: "binary64 x = sgn x * (of_int (round_even q) * 2 ^ s / S)"
    unfolding q_def s_def by (rule binary64_scaled [OF S])
  have "\<bar>x\<bar> = q * 2 ^ s / S"
    unfolding q_def using Spos by simp
  then have "x = sgn x * (q * 2 ^ s / S)"
    using sgn_mult_abs [of x] by simp
  then have "binary64 x - x = sgn x * (of_int (round_even q) * 2 ^ s / S) - sgn x * (q * 2 ^ s / S)"
    using b by simp
  also have "\<dots> = sgn x * ((of_int (round_even q) - q) * (2 ^ s / S))"
    by (simp add: algebra_simps diff_divide_distrib)
  finally have "\<bar>binary64 x - x\<bar> = \<bar>sgn x\<bar> * (\<bar>of_int (round_even q) - q\<bar> * (2 ^ s / S))"
    using Spos by (simp add: abs_mult)
  also have "\<dots> \<le> 1 * (\<bar>of_int (round_even q) - q\<bar> * (2 ^ s / S))"
    using Spos by (intro mult_right_mono) (simp_all add: abs_sgn_eq)
  also have "\<dots> \<le> 1 * ((1 / 2) * (2 ^ s / S))"
    using Spos by (intro mult_left_mono mult_right_mono round_even_near) simp_all
  finally show ?thesis
    unfolding s_def by simp
qed

lemma binary64_error:
  assumes S: "S = (2::real) ^ 1074"
  shows "\<bar>binary64 x - x\<bar> \<le> \<bar>x\<bar> / 2 ^ 53 + 1 / (2 * S)"
proof -
  have Spos: "0 < S" unfolding S by (rule scale_positive)
  define y where "y = \<bar>x\<bar> * S"
  define s where "s = nat (bitlen \<lfloor>y\<rfloor> - 53)"
  have step: "\<bar>binary64 x - x\<bar> \<le> 2 ^ s / (2 * S)"
    unfolding s_def y_def by (rule binary64_step [OF S])
  show ?thesis
  proof (cases "bitlen \<lfloor>y\<rfloor> \<le> 53")
    case True
    then have "s = 0" by (simp add: s_def)
    with step have "\<bar>binary64 x - x\<bar> \<le> 1 / (2 * S)" by simp
    moreover have "0 \<le> \<bar>x\<bar> / 2 ^ 53" by simp
    ultimately show ?thesis by linarith
  next
    case False
    then have big: "54 \<le> bitlen \<lfloor>y\<rfloor>" by simp
    have pos: "0 < \<lfloor>y\<rfloor>"
    proof (rule ccontr)
      assume "\<not> 0 < \<lfloor>y\<rfloor>"
      then have "bitlen \<lfloor>y\<rfloor> = 0" by (simp add: bitlen_eq_zero_iff)
      with big show False by simp
    qed
    have "nat (bitlen \<lfloor>y\<rfloor> - 1) = s + 52"
      using big by (simp add: s_def)
    with bitlen_bounds [OF pos] have "(2::int) ^ (s + 52) \<le> \<lfloor>y\<rfloor>" by simp
    then have "of_int ((2::int) ^ (s + 52)) \<le> y"
      by (simp only: le_floor_iff)
    then have "(2::real) ^ s * 2 ^ 52 \<le> y"
      by (simp add: power_add)
    then have "(2::real) ^ s \<le> y / 2 ^ 52"
      by (simp add: pos_le_divide_eq)
    then have "(2::real) ^ s / (2 * S) \<le> (y / 2 ^ 52) / (2 * S)"
      using Spos by (intro divide_right_mono) simp_all
    also have "(y / 2 ^ 52) / (2 * S) = \<bar>x\<bar> / 2 ^ 53"
      unfolding y_def using Spos by simp
    finally have "\<bar>binary64 x - x\<bar> \<le> \<bar>x\<bar> / 2 ^ 53"
      using step by linarith
    moreover have "0 \<le> 1 / (2 * S)" using Spos by simp
    ultimately show ?thesis by linarith
  qed
qed

lemma binary64_near: "\<bar>binary64 x - x\<bar> \<le> \<bar>x\<bar> / 2 ^ 53 + 1 / 2 ^ 60"
proof -
  have gen: "1 / B \<le> 1 / A" if "A \<le> B" "0 < A" for A B :: real
    using that by (simp add: frac_le)
  have "(2::real) ^ 60 \<le> 2 ^ Suc 1074"
    by (rule power_increasing) simp_all
  then have "(2::real) ^ 60 \<le> 2 * 2 ^ 1074"
    by (simp only: power_Suc)
  moreover have "(0::real) < 2 ^ 60"
    by (rule zero_less_power) simp
  ultimately have "1 / (2 * (2::real) ^ 1074) \<le> 1 / 2 ^ 60"
    by (rule gen)
  with binary64_error [OF refl, of x] show ?thesis by linarith
qed



subsection \<open>Evaluating a rounding\<close>

text \<open>
  When the magnitude of \<open>x\<close>, taken in units of \<open>2^b / 2^a\<close>, has 53 bits, the
  binary64 value of \<open>x\<close> is the nearest multiple of that unit.
\<close>

lemma binary64_normal:
  assumes ab: "a \<le> b + 1074"
    and lo: "2 ^ 52 \<le> \<bar>x\<bar> * 2 ^ a / 2 ^ b"
    and hi: "\<bar>x\<bar> * 2 ^ a / 2 ^ b < 2 ^ 53"
  shows "binary64 x = sgn x * (of_int (round_even (\<bar>x\<bar> * 2 ^ a / 2 ^ b)) * 2 ^ b / 2 ^ a)"
proof -
  define S where "S = (2::real) ^ 1074"
  define c where "c = b + 1074 - a"
  define m where "m = \<bar>x\<bar> * 2 ^ a / 2 ^ b"
  define y where "y = \<bar>x\<bar> * S"
  have Spos: "0 < S" unfolding S_def by (rule scale_positive)
  have "b + 1074 = a + c" using ab by (simp add: c_def)
  then have "(2::real) ^ (b + 1074) = 2 ^ (a + c)" by (rule arg_cong)
  then have scale: "2 ^ b * S = 2 ^ a * 2 ^ c"
    unfolding S_def by (simp only: power_add)
  then have Sc: "S = 2 ^ a * 2 ^ c / 2 ^ b"
    by (simp add: field_simps)
  have ym: "y = m * 2 ^ c"
    unfolding y_def m_def by (subst Sc) simp
  have "2 ^ 52 \<le> m" "m < 2 ^ 53"
    using lo hi unfolding m_def .
  then have "2 ^ 52 * 2 ^ c \<le> m * 2 ^ c" "m * 2 ^ c < 2 ^ 53 * 2 ^ c"
    by (simp_all only: mult_le_cancel_right_pos mult_less_cancel_right_pos zero_less_power zero_less_numeral)
  then have "(2::real) ^ (52 + c) \<le> y" "y < 2 ^ (53 + c)"
    unfolding ym by (simp_all only: power_add)
  then have "of_int ((2::int) ^ (52 + c)) \<le> y" "y < of_int ((2::int) ^ (53 + c))"
    by simp_all
  then have N: "(2::int) ^ (52 + c) \<le> \<lfloor>y\<rfloor>" "\<lfloor>y\<rfloor> < 2 ^ (53 + c)"
    by (simp_all only: le_floor_iff floor_less_iff)
  have "bitlen \<lfloor>y\<rfloor> \<le> int (53 + c)"
    unfolding bitlen_le_iff_power nat_int using N(2) by simp
  moreover have "int (53 + c) \<le> bitlen \<lfloor>y\<rfloor>"
  proof -
    have "53 + c - 1 = 52 + c" by simp
    then show ?thesis
      unfolding bitlen_ge_iff_power nat_int using N(1) by (simp only:) simp
  qed
  ultimately have "nat (bitlen \<lfloor>y\<rfloor> - 53) = c" by simp
  then have b1: "binary64 x = sgn x * (of_int (round_even (y / 2 ^ c)) * 2 ^ c / S)"
    using binary64_scaled [OF S_def, of x] unfolding y_def by simp
  have ratio: "2 ^ c / S = 2 ^ b / 2 ^ a"
    by (subst Sc) simp
  have "of_int (round_even (y / 2 ^ c)) * 2 ^ c / S = of_int (round_even m) * (2 ^ c / S)"
    unfolding ym by simp
  also have "\<dots> = of_int (round_even m) * (2 ^ b / 2 ^ a)"
    by (simp only: ratio)
  also have "\<dots> = of_int (round_even m) * 2 ^ b / 2 ^ a"
    by simp
  finally show ?thesis
    unfolding b1 m_def by (simp only:)
qed

lemma double_0_0045_product:
  "binary64 (5188146770730811 / 2 ^ 60 * 1000) = 9 / 2"
  using binary64_normal [of 50 0 "5188146770730811 / 2 ^ 60 * 1000"]
  by (simp add: round_even_def Let_def)



subsection \<open>The two fields\<close>

lemma cb64_rtt:
  "v_rtt (forEach_callback64 r v) =
     (if rtt_counted r then binary64 (the (currentRoundTripTime r) * 1000) else v_rtt v)"
  by (simp add: forEach_callback64_def inbound_block64_def outbound_block_def
        candidate_pair_block64_def rtt_counted_def is_succeeded_pair_def Let_def
        split: option.splits)

lemma cb64_jitter:
  "v_jitter (forEach_callback64 r v) =
     (if jitter_counted r then binary64 (the (jitter r) * 1000) else v_jitter v)"
  by (simp add: forEach_callback64_def inbound_block64_def outbound_block_def
        candidate_pair_block64_def jitter_counted_def is_inbound_video_def Let_def
        split: option.splits)

lemmas fold64_rtt = fold_last [of v_rtt forEach_callback64, OF cb64_rtt]
lemmas fold64_jitter = fold_last [of v_jitter forEach_callback64, OF cb64_jitter]

lemma Math_round_zero: "Math_round 0 = 0"
  by (simp add: Math_round_def)

lemma analyzeStats64_rtt:
  "rtt (analyzeStats64 rs) =
     (case find_last rtt_counted rs of None \<Rightarrow> 0
      | Some r \<Rightarrow> Math_round (binary64 (the (currentRoundTripTime r) * 1000)))"
  by (simp add: analyzeStats64_def Let_def fold64_rtt locals0_def Math_round_zero
      split: option.splits)

lemma analyzeStats64_jitter:
  "jitter' (analyzeStats64 rs) =
     (case find_last jitter_counted rs of None \<Rightarrow> 0
      | Some r \<Rightarrow> binary64 (Math_round (binary64 (binary64 (the (jitter r) * 1000) * 10)) / 10))"
  by (simp add: analyzeStats64_def Let_def fold64_jitter locals0_def Math_round_zero binary64_zero
      split: option.splits)

lemma rtt_chain:
  assumes "\<bar>m\<bar> \<le> 2 ^ 20"
  shows "\<bar>Math_round (binary64 m) - m\<bar> \<le> 1 / 2 + 1 / 2 ^ 32"
proof -
  have m': "\<bar>m\<bar> \<le> 1048576" using assms by simp
  have "\<bar>binary64 m - m\<bar> \<le> \<bar>m\<bar> / 2 ^ 53 + 1 / 2 ^ 60"
    by (rule binary64_near)
  then have "\<bar>binary64 m - m\<bar> \<le> \<bar>m\<bar> / 9007199254740992 + 1 / 1152921504606846976"
    by simp
  then have "\<bar>binary64 m - m\<bar> \<le> 1 / 4294967296"
    using m' by linarith
  with Math_round_near [of "binary64 m"]
  have "\<bar>Math_round (binary64 m) - m\<bar> \<le> 1 / 2 + 1 / 4294967296"
    by linarith
  then show ?thesis by simp
qed

lemma jitter_chain:
  assumes m: "\<bar>m\<bar> \<le> 2 ^ 20"
  shows "\<bar>binary64 (Math_round (binary64 (binary64 m * 10)) / 10) - m\<bar> \<le> 1 / 20 + 1 / 2 ^ 30"
proof -
  define a where "a = binary64 m"
  define b where "b = binary64 (a * 10)"
  define k where "k = Math_round b"
  define r where "r = binary64 (k / 10)"
  have m': "\<bar>m\<bar> \<le> 1048576" using m by simp
  have "\<bar>a - m\<bar> \<le> \<bar>m\<bar> / 2 ^ 53 + 1 / 2 ^ 60"
    unfolding a_def by (rule binary64_near)
  then have n1: "\<bar>a - m\<bar> \<le> \<bar>m\<bar> / 9007199254740992 + 1 / 1152921504606846976"
    by simp
  have e1: "\<bar>a - m\<bar> \<le> 1 / 4294967296"
    using n1 m' by linarith
  have A: "\<bar>a\<bar> \<le> 1048577"
    using e1 m' by linarith
  have "\<bar>b - a * 10\<bar> \<le> \<bar>a * 10\<bar> / 2 ^ 53 + 1 / 2 ^ 60"
    unfolding b_def by (rule binary64_near)
  then have n2: "\<bar>b - a * 10\<bar> \<le> \<bar>a * 10\<bar> / 9007199254740992 + 1 / 1152921504606846976"
    by simp
  have e2: "\<bar>b - a * 10\<bar> \<le> 1 / 268435456"
    using n2 A by linarith
  have B: "\<bar>b\<bar> \<le> 10485771"
    using e2 A by linarith
  have e3: "\<bar>k - b\<bar> \<le> 1 / 2"
    unfolding k_def by (rule Math_round_near)
  have K: "\<bar>k\<bar> \<le> 10485772"
    using e3 B by linarith
  have "\<bar>r - k / 10\<bar> \<le> \<bar>k / 10\<bar> / 2 ^ 53 + 1 / 2 ^ 60"
    unfolding r_def by (rule binary64_near)
  then have n4: "\<bar>r - k / 10\<bar> \<le> \<bar>k / 10\<bar> / 9007199254740992 + 1 / 1152921504606846976"
    by simp
  have e4: "\<bar>r - k / 10\<bar> \<le> 1 / 4294967296"
    using n4 K by linarith
  have "\<bar>r - m\<bar> \<le> 1 / 20 + 1 / 1073741824"
    using e1 e2 e3 e4 by linarith
  then have "\<bar>r - m\<bar> \<le> 1 / 20 + 1 / 2 ^ 30"
    by simp
  then show ?thesis
    unfolding r_def k_def b_def a_def .
qed


subsection \<open>The numbers of the examples\<close>

text \<open>
  The binary64 numbers written \<open>0.123\<close>, \<open>0.0456\<close> and \<open>0.0045\<close>, and the products
  that the extractor computes from them.
\<close>

lemma double_0_123: "binary64 (123 / 1000) = 553942754166571 / 2 ^ 52"
  using binary64_normal [of 56 0 "123 / 1000"]
  by (simp add: round_even_def Let_def)

lemma double_0_123_product: "binary64 (553942754166571 / 2 ^ 52 * 1000) = 123"
  using binary64_normal [of 46 0 "553942754166571 / 2 ^ 52 * 1000"]
  by (simp add: round_even_def Let_def)

lemma double_0_0456: "binary64 (456 / 10000) = 1642913144064757 / 2 ^ 55"
  using binary64_normal [of 57 0 "456 / 10000"]
  by (simp add: round_even_def Let_def)

lemma double_0_0456_product: "binary64 (1642913144064757 / 2 ^ 55 * 1000) = 6417629469002957 / 2 ^ 47"
  using binary64_normal [of 47 0 "1642913144064757 / 2 ^ 55 * 1000"]
  by (simp add: round_even_def Let_def)

lemma double_45_6_product: "binary64 (6417629469002957 / 2 ^ 47 * 10) = 456"
  using binary64_normal [of 44 0 "6417629469002957 / 2 ^ 47 * 10"]
  by (simp add: round_even_def Let_def)

lemma double_0_0045: "binary64 (45 / 10000) = 5188146770730811 / 2 ^ 60"
  using binary64_normal [of 60 0 "45 / 10000"]
  by (simp add: round_even_def Let_def)

lemma double_0_0045_exact: "binary64 (5188146770730811 / 2 ^ 60) = 5188146770730811 / 2 ^ 60"
  using binary64_normal [of 60 0 "5188146770730811 / 2 ^ 60"]
  by (simp add: round_even_def Let_def)



text \<open>
  Claim C5, as amended. In binary64 arithmetic the round-trip time of the result is 0 when
  no succeeded candidate pair carries \<open>currentRoundTripTime\<close>. Otherwise, for a time
  of at most \<open>2^20\<close> ms in the last such report, it is an integer, the one nearest to the
  binary64 product of the seconds value and 1000, and it is within \<open>1/2 + 2^-32\<close> of the
  exact number of milliseconds. The jitter of the result is 0 when no inbound video report
  carries \<open>jitter\<close>. Otherwise, for a jitter of at most \<open>2^20\<close> ms, it is the binary64
  number nearest to \<open>k / 10\<close>, where \<open>k\<close> is the integer nearest to the binary64 value
  of the seconds value times 1000 times 10, and it is within \<open>1/20 + 2^-30\<close> of the exact
  number of milliseconds. The binary64 number \<open>0.123\<close> gives 123, and the binary64 number
  \<open>0.0456\<close> gives the binary64 number \<open>45.6\<close>.
\<close>

theorem rtt_jitter_conversion_binary64:
  "(case find_last rtt_counted rs of
      None \<Rightarrow> rtt (analyzeStats64 rs) = 0
    | Some r \<Rightarrow>
        \<bar>the (currentRoundTripTime r)\<bar> * 1000 \<le> 2 ^ 20 \<longrightarrow>
        rtt (analyzeStats64 rs) \<in> \<int> \<and>
        \<bar>rtt (analyzeStats64 rs) - binary64 (the (currentRoundTripTime r) * 1000)\<bar> \<le> 1 / 2 \<and>
        \<bar>rtt (analyzeStats64 rs) - the (currentRoundTripTime r) * 1000\<bar> \<le> 1 / 2 + 1 / 2 ^ 32) \<and>
   (case find_last jitter_counted rs of
      None \<Rightarrow> jitter' (analyzeStats64 rs) = 0
    | Some r \<Rightarrow>
        \<bar>the (jitter r)\<bar> * 1000 \<le> 2 ^ 20 \<longrightarrow>
        (\<exists>k::int. jitter' (analyzeStats64 rs) = binary64 (of_int k / 10) \<and>
           \<bar>of_int k - binary64 (binary64 (the (jitter r) * 1000) * 10)\<bar> \<le> 1 / 2) \<and>
        \<bar>jitter' (analyzeStats64 rs) - the (jitter r) * 1000\<bar> \<le> 1 / 20 + 1 / 2 ^ 30) \<and>
   rtt (analyzeStats64 [candidate_pair ''succeeded'' (Some (binary64 (123 / 1000)))]) = 123 \<and>
   jitter' (analyzeStats64 [inbound_rtp ''video'' None None (Some (binary64 (456 / 10000))) None])
     = binary64 (456 / 10)"
proof -
  have a: "(case find_last rtt_counted rs of
      None \<Rightarrow> rtt (analyzeStats64 rs) = 0
    | Some r \<Rightarrow>
        \<bar>the (currentRoundTripTime r)\<bar> * 1000 \<le> 2 ^ 20 \<longrightarrow>
        rtt (analyzeStats64 rs) \<in> \<int> \<and>
        \<bar>rtt (analyzeStats64 rs) - binary64 (the (currentRoundTripTime r) * 1000)\<bar> \<le> 1 / 2 \<and>
        \<bar>rtt (analyzeStats64 rs) - the (currentRoundTripTime r) * 1000\<bar> \<le> 1 / 2 + 1 / 2 ^ 32)"
  proof (cases "find_last rtt_counted rs")
    case None
    then show ?thesis by (simp add: analyzeStats64_rtt)
  next
    case (Some r)
    define t where "t = the (currentRoundTripTime r)"
    have v: "rtt (analyzeStats64 rs) = Math_round (binary64 (t * 1000))"
      using Some by (simp add: analyzeStats64_rtt t_def)
    have "\<bar>Math_round (binary64 (t * 1000)) - t * 1000\<bar> \<le> 1 / 2 + 1 / 2 ^ 32"
      if "\<bar>t\<bar> * 1000 \<le> 2 ^ 20"
    proof -
      from that have "\<bar>t * 1000\<bar> \<le> 2 ^ 20" by (simp add: abs_mult)
      then show ?thesis by (rule rtt_chain)
    qed
    then show ?thesis
      unfolding Some option.case v t_def [symmetric]
      using Math_round_Ints Math_round_near by blast
  qed
  have b: "(case find_last jitter_counted rs of
      None \<Rightarrow> jitter' (analyzeStats64 rs) = 0
    | Some r \<Rightarrow>
        \<bar>the (jitter r)\<bar> * 1000 \<le> 2 ^ 20 \<longrightarrow>
        (\<exists>k::int. jitter' (analyzeStats64 rs) = binary64 (of_int k / 10) \<and>
           \<bar>of_int k - binary64 (binary64 (the (jitter r) * 1000) * 10)\<bar> \<le> 1 / 2) \<and>
        \<bar>jitter' (analyzeStats64 rs) - the (jitter r) * 1000\<bar> \<le> 1 / 20 + 1 / 2 ^ 30)"
  proof (cases "find_last jitter_counted rs")
    case None
    then show ?thesis by (simp add: analyzeStats64_jitter)
  next
    case (Some r)
    define j where "j = the (jitter r)"
    define p where "p = binary64 (binary64 (j * 1000) * 10)"
    have v: "jitter' (analyzeStats64 rs) = binary64 (Math_round p / 10)"
      using Some by (simp add: analyzeStats64_jitter j_def p_def)
    have k: "\<exists>k::int. binary64 (Math_round p / 10) = binary64 (of_int k / 10) \<and>
           \<bar>of_int k - p\<bar> \<le> 1 / 2"
    proof (intro exI conjI)
      show "binary64 (Math_round p / 10) = binary64 (of_int \<lfloor>p + 1 / 2\<rfloor> / 10)"
        by (simp add: Math_round_def)
      show "\<bar>of_int \<lfloor>p + 1 / 2\<rfloor> - p\<bar> \<le> 1 / 2"
        using Math_round_near [of p] by (simp add: Math_round_def)
    qed
    have "\<bar>binary64 (Math_round p / 10) - j * 1000\<bar> \<le> 1 / 20 + 1 / 2 ^ 30"
      if "\<bar>j\<bar> * 1000 \<le> 2 ^ 20"
    proof -
      from that have "\<bar>j * 1000\<bar> \<le> 2 ^ 20" by (simp add: abs_mult)
      then show ?thesis unfolding p_def by (rule jitter_chain)
    qed
    then show ?thesis
      unfolding Some option.case v j_def [symmetric] p_def [symmetric]
      using k by blast
  qed
  have c: "rtt (analyzeStats64 [candidate_pair ''succeeded'' (Some (binary64 (123 / 1000)))]) = 123"
  proof -
    have "find_last rtt_counted [candidate_pair ''succeeded'' (Some (binary64 (123 / 1000)))]
            = Some (candidate_pair ''succeeded'' (Some (binary64 (123 / 1000))))"
      by (rule find_last_single) (simp add: rtt_counted_def is_succeeded_pair_def candidate_pair_def)
    then have "rtt (analyzeStats64 [candidate_pair ''succeeded'' (Some (binary64 (123 / 1000)))])
            = Math_round (binary64 (binary64 (123 / 1000) * 1000))"
      by (simp add: analyzeStats64_rtt candidate_pair_def)
    also have "\<dots> = 123"
      unfolding double_0_123 double_0_123_product by (simp add: Math_round_def)
    finally show ?thesis .
  qed
  have d: "jitter' (analyzeStats64 [inbound_rtp ''video'' None None (Some (binary64 (456 / 10000))) None])
     = binary64 (456 / 10)"
  proof -
    have "find_last jitter_counted [inbound_rtp ''video'' None None (Some (binary64 (456 / 10000))) None]
            = Some (inbound_rtp ''video'' None None (Some (binary64 (456 / 10000))) None)"
      by (rule find_last_single) (simp add: jitter_counted_def is_inbound_video_def inbound_rtp_def)
    then have "jitter' (analyzeStats64 [inbound_rtp ''video'' None None (Some (binary64 (456 / 10000))) None])
            = binary64 (Math_round (binary64 (binary64 (binary64 (456 / 10000) * 1000) * 10)) / 10)"
      by (simp add: analyzeStats64_jitter inbound_rtp_def)
    also have "Math_round (binary64 (binary64 (binary64 (456 / 10000) * 1000) * 10)) = 456"
      unfolding double_0_0456 double_0_0456_product double_45_6_product
      by (simp add: Math_round_def)
    finally show ?thesis .
  qed
  from a b c d show ?thesis by (intro conjI)
qed



text \<open>
  Claim C5, witness: a round-trip time of the binary64 number \<open>0.0045\<close> and a jitter of
  \<open>3/4096\<close> seconds.
\<close>

theorem rtt_jitter_conversion_binary64_witness:
  "\<bar>5188146770730811 / 2 ^ 60\<bar> * 1000 \<le> (2::real) ^ 20 \<and> \<bar>3 / 4096\<bar> * 1000 \<le> (2::real) ^ 20 \<and>
   rtt (analyzeStats64 [candidate_pair ''succeeded'' (Some (5188146770730811 / 2 ^ 60)),
                        inbound_rtp ''video'' None None (Some (3 / 4096)) None]) \<in> \<int> \<and>
   \<bar>rtt (analyzeStats64 [candidate_pair ''succeeded'' (Some (5188146770730811 / 2 ^ 60)),
                         inbound_rtp ''video'' None None (Some (3 / 4096)) None])
      - 5188146770730811 / 2 ^ 60 * 1000\<bar> \<le> 1 / 2 + 1 / 2 ^ 32 \<and>
   \<bar>jitter' (analyzeStats64 [candidate_pair ''succeeded'' (Some (5188146770730811 / 2 ^ 60)),
                             inbound_rtp ''video'' None None (Some (3 / 4096)) None])
      - 3 / 4096 * 1000\<bar> \<le> 1 / 20 + 1 / 2 ^ 30"
proof -
  let ?c = "candidate_pair ''succeeded'' (Some (5188146770730811 / 2 ^ 60))"
  let ?i = "inbound_rtp ''video'' None None (Some (3 / 4096)) None"
  have f: "find_last rtt_counted [?c, ?i] = Some ?c"
    by (simp add: find_last_def rtt_counted_def is_succeeded_pair_def candidate_pair_def inbound_rtp_def)
  have g: "find_last jitter_counted [?c, ?i] = Some ?i"
    by (simp add: find_last_def jitter_counted_def is_inbound_video_def candidate_pair_def inbound_rtp_def)
  have v: "the (currentRoundTripTime ?c) = 5188146770730811 / 2 ^ 60" "the (jitter ?i) = 3 / 4096"
    by (simp_all add: candidate_pair_def inbound_rtp_def)
  have h: "\<bar>5188146770730811 / 2 ^ 60\<bar> * 1000 \<le> (2::real) ^ 20" "\<bar>3 / 4096\<bar> * 1000 \<le> (2::real) ^ 20"
    by simp_all
  show ?thesis
    using rtt_jitter_conversion_binary64 [of "[?c, ?i]"] h
    unfolding f g option.case v by blast
qed


text \<open>
  Claim C5, counterexample to "rounded to the nearest integer". The binary64 number written
  \<open>0.0045\<close> is a little below 45 ten-thousandths, so the exact number of milliseconds is
  below 4.5 and its nearest integer is 4. The binary64 product is 4.5, and the result is 5.
\<close>

theorem rtt_near_tie_counterexample:
  "binary64 (45 / 10000) = 5188146770730811 / 2 ^ 60 \<and>
   rtt (analyzeStats64 [candidate_pair ''succeeded'' (Some (5188146770730811 / 2 ^ 60))]) = 5 \<and>
   \<bar>4 - 5188146770730811 / 2 ^ 60 * 1000\<bar> < (1::real) / 2 \<and>
   (1::real) / 2 < \<bar>5 - 5188146770730811 / 2 ^ 60 * 1000\<bar>"
proof -
  have "find_last rtt_counted [candidate_pair ''succeeded'' (Some (5188146770730811 / 2 ^ 60))]
          = Some (candidate_pair ''succeeded'' (Some (5188146770730811 / 2 ^ 60)))"
    by (rule find_last_single) (simp add: rtt_counted_def is_succeeded_pair_def candidate_pair_def)
  then have "rtt (analyzeStats64 [candidate_pair ''succeeded'' (Some (5188146770730811 / 2 ^ 60))])
          = Math_round (binary64 (5188146770730811 / 2 ^ 60 * 1000))"
    by (simp add: analyzeStats64_rtt candidate_pair_def)
  also have "\<dots> = 5"
    unfolding double_0_0045_product by (simp add: Math_round_def)
  finally have r: "rtt (analyzeStats64 [candidate_pair ''succeeded'' (Some (5188146770730811 / 2 ^ 60))]) = 5" .
  have n: "\<bar>4 - 5188146770730811 / 2 ^ 60 * 1000\<bar> < (1::real) / 2"
    "(1::real) / 2 < \<bar>5 - 5188146770730811 / 2 ^ 60 * 1000\<bar>"
    by simp_all
  from double_0_0045 r n show ?thesis by (intro conjI)
qed

section \<open>The sampler loop\<close>

subsection \<open>Starting and stopping\<close>

lemma startMonitoring_running:
  "isMonitoring (monitors w self) \<Longrightarrow> startMonitoring self w = w"
  by (simp add: startMonitoring_def)

lemma startMonitoring_stopped:
  assumes "\<not> isMonitoring (monitors w self)"
  shows "startMonitoring self w =
     w\<lparr>monitors := (monitors w)(self := (monitors w self)
          \<lparr>isMonitoring := True, monitoringInterval := Some (next_handle w)\<rparr>),
       next_handle := Suc (next_handle w),
       intervals := intervals w @ [(next_handle w, self, 2000)]\<rparr>"
  using assms by (simp add: startMonitoring_def update_monitor_def setInterval_def)

lemma stopMonitoring_stopped:
  "\<not> isMonitoring (monitors w self) \<Longrightarrow> stopMonitoring self w = w"
  by (simp add: stopMonitoring_def)

lemma stopMonitoring_running:
  assumes "isMonitoring (monitors w self)" "monitoringInterval (monitors w self) = Some h" "h \<noteq> 0"
  shows "stopMonitoring self w =
     w\<lparr>monitors := (monitors w)(self := (monitors w self)
          \<lparr>isMonitoring := False, monitoringInterval := None\<rparr>),
       intervals := filter (\<lambda>e. fst e \<noteq> h) (intervals w)\<rparr>"
  using assms by (simp add: stopMonitoring_def update_monitor_def clearInterval_def)

lemma timers_of_handles:
  "wf_timers w \<Longrightarrow> h \<in> set (timers_of self w) \<Longrightarrow> 0 < next_handle w \<and> h < next_handle w"
  by (auto simp: wf_timers_def timers_of_def list_all_iff)

lemma startMonitoring_inv:
  assumes "wf_timers w" "sampler_inv self w"
  shows "wf_timers (startMonitoring self w) \<and> sampler_inv self (startMonitoring self w)"
proof (cases "isMonitoring (monitors w self)")
  case True
  then show ?thesis using assms by (simp add: startMonitoring_running)
next
  case False
  then have none: "monitoringInterval (monitors w self) = None" "timers_of self w = []"
    using assms(2) by (auto simp: sampler_inv_def)
  have wf: "wf_timers (startMonitoring self w)"
    using assms(1) unfolding startMonitoring_stopped [OF False] wf_timers_def
    by (auto simp: list_all_iff)
  have "sampler_inv self (startMonitoring self w)"
    using none unfolding startMonitoring_stopped [OF False] sampler_inv_def timers_of_def
    by simp
  with wf show ?thesis by simp
qed

lemma stopMonitoring_inv:
  assumes "wf_timers w" "sampler_inv self w"
  shows "wf_timers (stopMonitoring self w) \<and> sampler_inv self (stopMonitoring self w)"
proof (cases "isMonitoring (monitors w self)")
  case False
  then show ?thesis using assms by (simp add: stopMonitoring_stopped)
next
  case True
  then obtain h where h: "monitoringInterval (monitors w self) = Some h" "timers_of self w = [h]"
    using assms(2) by (auto simp: sampler_inv_def)
  then have "h \<in> set (timers_of self w)" by simp
  then have h0: "h \<noteq> 0"
    using assms(1) by (auto simp: wf_timers_def timers_of_def list_all_iff)
  note eq = stopMonitoring_running [OF True h(1) h0]
  have wf: "wf_timers (stopMonitoring self w)"
    using assms(1) unfolding eq wf_timers_def
    by (auto simp: list_all_iff distinct_map_filter)
  have "timers_of self (stopMonitoring self w) = filter (\<lambda>x. x \<noteq> h) (timers_of self w)"
    unfolding eq timers_of_def by (simp add: filter_map comp_def conj_commute)
  then have "sampler_inv self (stopMonitoring self w)"
    unfolding sampler_inv_def using h by (simp add: eq)
  with wf show ?thesis by simp
qed

lemma sampler_steps_inv:
  assumes "wf_timers w" "sampler_inv self w"
  shows "wf_timers (fold (sampler_step self) ops w) \<and> sampler_inv self (fold (sampler_step self) ops w)"
  using assms
proof (induction ops arbitrary: w)
  case Nil
  then show ?case by simp
next
  case (Cons a ops)
  have "wf_timers (sampler_step self a w) \<and> sampler_inv self (sampler_step self a w)"
    using Cons.prems startMonitoring_inv stopMonitoring_inv by (cases a) simp_all
  then show ?case using Cons.IH by simp
qed



text \<open>
  Claim C6. A monitor is constructed in a page whose timer table is well formed and holds
  no timer of this monitor. After any sequence of \<open>startMonitoring\<close> and
  \<open>stopMonitoring\<close> calls on it, \<open>isMonitoring\<close> is true exactly when
  \<open>monitoringInterval\<close> holds a handle; the timers of the table that run the callback
  of this monitor are that handle alone, or none: at most one. In that state
  \<open>startMonitoring\<close> on a running monitor and \<open>stopMonitoring\<close> on a stopped one
  return the state they were given. Neither function has a branch that raises.
\<close>

theorem sampler_start_stop_invariant:
  assumes "wf_timers w0" and "monitors w0 self = new_monitor pc" and "timers_of self w0 = []"
  shows "isMonitoring (monitors (sampler_run self ops w0) self)
           = (monitoringInterval (monitors (sampler_run self ops w0) self) \<noteq> None) \<and>
         timers_of self (sampler_run self ops w0)
           = (case monitoringInterval (monitors (sampler_run self ops w0) self) of
                None \<Rightarrow> [] | Some h \<Rightarrow> [h]) \<and>
         length (timers_of self (sampler_run self ops w0)) \<le> 1 \<and>
         (isMonitoring (monitors (sampler_run self ops w0) self) \<longrightarrow>
            startMonitoring self (sampler_run self ops w0) = sampler_run self ops w0) \<and>
         (\<not> isMonitoring (monitors (sampler_run self ops w0) self) \<longrightarrow>
            stopMonitoring self (sampler_run self ops w0) = sampler_run self ops w0)"
proof -
  have "sampler_inv self w0"
    using assms(2,3) by (simp add: sampler_inv_def new_monitor_def)
  with assms(1) have inv: "sampler_inv self (sampler_run self ops w0)"
    unfolding sampler_run_def using sampler_steps_inv by blast
  then have len: "length (timers_of self (sampler_run self ops w0)) \<le> 1"
    by (simp add: sampler_inv_def split: option.splits)
  from inv len show ?thesis
    unfolding sampler_inv_def
    using startMonitoring_running stopMonitoring_stopped by blast
qed


text \<open>Claim C6, witness: start, start, stop, stop, start on a monitor of the initial page.\<close>

theorem sampler_start_stop_invariant_witness:
  "wf_timers world0 \<and> monitors world0 0 = new_monitor None \<and> timers_of 0 world0 = [] \<and>
   isMonitoring (monitors (sampler_run 0 [Start, Start, Stop, Stop, Start] world0) 0) \<and>
   monitoringInterval (monitors (sampler_run 0 [Start, Start, Stop, Stop, Start] world0) 0) \<noteq> None \<and>
   length (timers_of 0 (sampler_run 0 [Start, Start, Stop, Stop, Start] world0)) \<le> 1 \<and>
   startMonitoring 0 (sampler_run 0 [Start, Start, Stop, Stop, Start] world0)
     = sampler_run 0 [Start, Start, Stop, Stop, Start] world0"
proof -
  have h1: "wf_timers world0"
    by (simp add: wf_timers_def world0_def)
  have h2: "monitors world0 0 = new_monitor None"
    by (simp add: world0_def)
  have h3: "timers_of 0 world0 = []"
    by (simp add: timers_of_def world0_def)
  have run: "isMonitoring (monitors (sampler_run 0 [Start, Start, Stop, Stop, Start] world0) 0)"
    by (simp add: sampler_run_def startMonitoring_def stopMonitoring_def update_monitor_def
        setInterval_def clearInterval_def world0_def new_monitor_def)
  show ?thesis
    using sampler_start_stop_invariant [OF h1 h2 h3, of "[Start, Start, Stop, Stop, Start]"] h1 h2 h3 run
    by blast
qed


subsection \<open>The tick\<close>

lemma interval_callback_skip:
  "\<not> tick_connected self env w \<Longrightarrow> interval_callback self env w = Returns w"
  by (auto simp: interval_callback_def tick_connected_def)

lemma interval_callback_ok:
  assumes "tick_connected self env w" "getStats env = Inr rs" "emit_error env = None"
  shows "interval_callback self env w =
     Returns (w\<lparr>emitted := emitted w @ [metrics.extend (analyzeStats rs) \<lparr>room = getCurrentRoom env\<rparr>]\<rparr>)"
  using assms
  by (auto simp: interval_callback_def tick_connected_def collectAndSendStats_def
      collect_and_send_def socket_emit_network_stats_def Let_def)

lemma interval_callback_fetch_fails:
  assumes "tick_connected self env w" "getStats env = Inl e"
  shows "interval_callback self env w = Returns (w\<lparr>console_errors := console_errors w @ [e]\<rparr>)"
  using assms
  by (auto simp: interval_callback_def tick_connected_def collectAndSendStats_def
      collect_and_send_def)

lemma interval_callback_send_fails:
  assumes "tick_connected self env w" "getStats env = Inr rs" "emit_error env = Some e"
  shows "interval_callback self env w = Returns (w\<lparr>console_errors := console_errors w @ [e]\<rparr>)"
  using assms
  by (auto simp: interval_callback_def tick_connected_def collectAndSendStats_def
      collect_and_send_def socket_emit_network_stats_def Let_def)


text \<open>
  Claim C7, as amended. A tick emits a report if and only if the monitor has a connection
  whose state is \<open>connected\<close>, \<open>getStats()\<close> does not fail and \<open>socket.emit\<close>
  does not throw. The report is then the one message added to the channel: the metrics
  that \<open>analyzeStats\<close> extracts from the snapshot, with the current room. A tick while
  the connection is not connected returns the state it was given: nothing is emitted and
  nothing is kept for a later tick.
\<close>

theorem tick_reports_iff_connected_and_fetched:
  "(emitted (state_of (interval_callback self env w)) \<noteq> emitted w
      \<longleftrightarrow> tick_connected self env w \<and> \<not> isl (getStats env) \<and> emit_error env = None) \<and>
   (tick_connected self env w \<and> getStats env = Inr rs \<and> emit_error env = None \<longrightarrow>
      (\<exists>msg. interval_callback self env w = Returns (w\<lparr>emitted := emitted w @ [msg]\<rparr>) \<and>
             room msg = getCurrentRoom env \<and> metrics.truncate msg = analyzeStats rs)) \<and>
   (\<not> tick_connected self env w \<longrightarrow> interval_callback self env w = Returns w)"
proof -
  have a: "emitted (state_of (interval_callback self env w)) \<noteq> emitted w
      \<longleftrightarrow> tick_connected self env w \<and> \<not> isl (getStats env) \<and> emit_error env = None"
  proof (cases "tick_connected self env w")
    case False
    then show ?thesis by (simp add: interval_callback_skip)
  next
    case True
    show ?thesis
    proof (cases "getStats env")
      case (Inl e)
      then show ?thesis using True by (simp add: interval_callback_fetch_fails)
    next
      case (Inr rs')
      show ?thesis
      proof (cases "emit_error env")
        case None
        then show ?thesis using True Inr by (simp add: interval_callback_ok)
      next
        case (Some e)
        then show ?thesis using True Inr by (simp add: interval_callback_send_fails)
      qed
    qed
  qed
  have b: "\<exists>msg. interval_callback self env w = Returns (w\<lparr>emitted := emitted w @ [msg]\<rparr>) \<and>
             room msg = getCurrentRoom env \<and> metrics.truncate msg = analyzeStats rs"
    if "tick_connected self env w" "getStats env = Inr rs" "emit_error env = None"
  proof -
    let ?msg = "metrics.extend (analyzeStats rs) \<lparr>room = getCurrentRoom env\<rparr>"
    have "room ?msg = getCurrentRoom env"
      by (simp add: metrics.extend_def)
    moreover have "metrics.truncate ?msg = analyzeStats rs"
      by (simp add: metrics.extend_def metrics.truncate_def)
    ultimately show ?thesis
      using interval_callback_ok [OF that] by blast
  qed
  from a b interval_callback_skip show ?thesis by blast
qed



text \<open>The page after the first \<open>startCall\<close>: monitor 0 runs on connection 0 under timer 1.\<close>

lemma startCall_world0:
  "startCall world0 =
     world0\<lparr>monitors := (monitors world0)(0 := \<lparr>peerConnection = Some 0, isMonitoring = True,
                                               monitoringInterval = Some 1\<rparr>),
            allocated := 1, next_handle := 2, intervals := [(1, 0, 2000)],
            connections := 1, app_peerConnection := Some 0, app_networkMonitor := Some 0\<rparr>"
  by (simp add: startCall_def startNetworkMonitoring_def createPeerConnection_def
      startMonitoring_def update_monitor_def setInterval_def world0_def new_monitor_def Let_def)


text \<open>
  Claim C7, witness: on the page after \<open>startCall\<close>, a tick in the state
  \<open>connected\<close> emits and a tick in the state \<open>connecting\<close> changes nothing.
\<close>

theorem tick_reports_iff_connected_and_fetched_witness:
  "tick_connected 0
     \<lparr>connectionState = ''connected'',
      getStats = Inr [inbound_rtp ''video'' (Some 5) (Some 95) None None],
      roomInput = ''room1'', emit_error = None\<rparr> (startCall world0) \<and>
   emitted (state_of (interval_callback 0
     \<lparr>connectionState = ''connected'',
      getStats = Inr [inbound_rtp ''video'' (Some 5) (Some 95) None None],
      roomInput = ''room1'', emit_error = None\<rparr> (startCall world0))) \<noteq> emitted (startCall world0) \<and>
   \<not> tick_connected 0
     \<lparr>connectionState = ''connecting'',
      getStats = Inr [inbound_rtp ''video'' (Some 5) (Some 95) None None],
      roomInput = ''room1'', emit_error = None\<rparr> (startCall world0) \<and>
   interval_callback 0
     \<lparr>connectionState = ''connecting'',
      getStats = Inr [inbound_rtp ''video'' (Some 5) (Some 95) None None],
      roomInput = ''room1'', emit_error = None\<rparr> (startCall world0) = Returns (startCall world0)"
proof -
  let ?rs = "[inbound_rtp ''video'' (Some 5) (Some 95) None None]"
  let ?on = "\<lparr>connectionState = ''connected'', getStats = Inr ?rs,
              roomInput = ''room1'', emit_error = None\<rparr>"
  let ?off = "\<lparr>connectionState = ''connecting'', getStats = Inr ?rs,
               roomInput = ''room1'', emit_error = None\<rparr>"
  have c: "tick_connected 0 ?on (startCall world0)"
    by (simp add: tick_connected_def startCall_world0)
  have n: "\<not> tick_connected 0 ?off (startCall world0)"
    by (simp add: tick_connected_def)
  have g: "\<not> isl (getStats ?on)" "emit_error ?on = None"
    by simp_all
  show ?thesis
    using tick_reports_iff_connected_and_fetched [of 0 ?on "startCall world0" ?rs]
      tick_reports_iff_connected_and_fetched [of 0 ?off "startCall world0" ?rs] c n g
    by blast
qed


text \<open>
  Claim C7, counterexample to "if and only if the connection reports the connected state":
  the connection is connected, \<open>getStats()\<close> rejects, and no report is emitted.
\<close>

theorem tick_connected_without_report_counterexample:
  "tick_connected 0
     \<lparr>connectionState = ''connected'', getStats = Inl (Thrown ''InvalidStateError''),
      roomInput = ''room1'', emit_error = None\<rparr> (startCall world0) \<and>
   emitted (state_of (interval_callback 0
     \<lparr>connectionState = ''connected'', getStats = Inl (Thrown ''InvalidStateError''),
      roomInput = ''room1'', emit_error = None\<rparr> (startCall world0))) = []"
proof -
  let ?env = "\<lparr>connectionState = ''connected'', getStats = Inl (Thrown ''InvalidStateError''),
               roomInput = ''room1'', emit_error = None\<rparr>"
  have c: "tick_connected 0 ?env (startCall world0)"
    by (simp add: tick_connected_def startCall_world0)
  have "emitted (startCall world0) = []"
    unfolding startCall_world0 by (simp add: world0_def)
  then have "emitted (state_of (interval_callback 0 ?env (startCall world0))) = []"
    using interval_callback_fetch_fails [OF c, of "Thrown ''InvalidStateError''"] by simp
  with c show ?thesis by simp
qed


text \<open>
  Claim C8. On a tick of a connected monitor in which \<open>getStats()\<close> fails or
  \<open>socket.emit\<close> throws the error \<open>e\<close>, the callback returns, it does not raise; the
  state it returns is the state it was given with \<open>e\<close> added to what
  \<open>console.error\<close> has printed. The monitors and the timer table are unchanged, so the
  loop is as running as it was, and the next tick that succeeds emits its report.
\<close>

theorem tick_failure_is_caught:
  assumes "tick_connected self env w"
    and "getStats env = Inl e \<or> (\<not> isl (getStats env) \<and> emit_error env = Some e)"
  shows "interval_callback self env w = Returns (w\<lparr>console_errors := console_errors w @ [e]\<rparr>) \<and>
         monitors (state_of (interval_callback self env w)) = monitors w \<and>
         intervals (state_of (interval_callback self env w)) = intervals w \<and>
         emitted (state_of (interval_callback self env w)) = emitted w \<and>
         (\<forall>env' rs'. tick_connected self env' w \<and> getStats env' = Inr rs' \<and> emit_error env' = None \<longrightarrow>
            emitted (state_of (interval_callback self env' (state_of (interval_callback self env w))))
              = emitted w @ [metrics.extend (analyzeStats rs') \<lparr>room = getCurrentRoom env'\<rparr>])"
proof -
  have eq: "interval_callback self env w = Returns (w\<lparr>console_errors := console_errors w @ [e]\<rparr>)"
  proof (cases "getStats env")
    case (Inl e')
    then show ?thesis using assms by (simp add: interval_callback_fetch_fails)
  next
    case (Inr rs)
    then show ?thesis using assms by (simp add: interval_callback_send_fails)
  qed
  have next_tick: "emitted (state_of (interval_callback self env' (w\<lparr>console_errors := console_errors w @ [e]\<rparr>)))
              = emitted w @ [metrics.extend (analyzeStats rs') \<lparr>room = getCurrentRoom env'\<rparr>]"
    if "tick_connected self env' w" "getStats env' = Inr rs'" "emit_error env' = None"
    for env' rs'
  proof -
    have "tick_connected self env' (w\<lparr>console_errors := console_errors w @ [e]\<rparr>)"
      using that(1) by (simp add: tick_connected_def)
    from interval_callback_ok [OF this that(2,3)] show ?thesis by simp
  qed
  show ?thesis
    unfolding eq using next_tick by simp
qed


text \<open>Claim C8, witness: \<open>getStats()\<close> rejects on the page after \<open>startCall\<close>.\<close>

theorem tick_failure_is_caught_witness:
  "interval_callback 0
     \<lparr>connectionState = ''connected'', getStats = Inl (Thrown ''InvalidStateError''),
      roomInput = ''room1'', emit_error = None\<rparr> (startCall world0)
     = Returns ((startCall world0)\<lparr>console_errors := [Thrown ''InvalidStateError'']\<rparr>) \<and>
   isMonitoring (monitors (state_of (interval_callback 0
     \<lparr>connectionState = ''connected'', getStats = Inl (Thrown ''InvalidStateError''),
      roomInput = ''room1'', emit_error = None\<rparr> (startCall world0))) 0) \<and>
   intervals (state_of (interval_callback 0
     \<lparr>connectionState = ''connected'', getStats = Inl (Thrown ''InvalidStateError''),
      roomInput = ''room1'', emit_error = None\<rparr> (startCall world0))) = [(1, 0, 2000)]"
proof -
  let ?env = "\<lparr>connectionState = ''connected'', getStats = Inl (Thrown ''InvalidStateError''),
               roomInput = ''room1'', emit_error = None\<rparr>"
  have c: "tick_connected 0 ?env (startCall world0)"
    by (simp add: tick_connected_def startCall_world0)
  have f: "getStats ?env = Inl (Thrown ''InvalidStateError'') \<or>
           (\<not> isl (getStats ?env) \<and> emit_error ?env = Some (Thrown ''InvalidStateError''))"
    by simp
  have w: "console_errors (startCall world0) = []" "isMonitoring (monitors (startCall world0) 0)"
    "intervals (startCall world0) = [(1, 0, 2000)]"
    unfolding startCall_world0 by (simp_all add: world0_def)
  show ?thesis
    using tick_failure_is_caught [OF c f] w by simp
qed

section \<open>The lifecycle\<close>

subsection \<open>What the three handlers do to the state\<close>









subsection \<open>The invariant of the page\<close>






lemma sampler_inv_cong:
  "monitors w' r = monitors w r \<Longrightarrow> timers_of r w' = timers_of r w \<Longrightarrow>
   sampler_inv r w' = sampler_inv r w"
  by (simp add: sampler_inv_def)




















subsection \<open>Start on connection, stop on teardown\<close>













section \<open>The quality reactor\<close>

subsection \<open>Lines of the log\<close>

lemma js_split_not_Nil: "js_split c s \<noteq> []"
  by (induction s) (auto split: list.splits)

lemma js_split_line: "c \<notin> set b \<Longrightarrow> js_split c (b @ c # s) = b # js_split c s"
  by (induction b) (auto split: list.splits)

lemma js_split_lines:
  "\<forall>b\<in>set bs. newline \<notin> set b \<Longrightarrow> js_split newline (lines_text bs) = bs @ [[]]"
  by (induction bs) (simp_all add: lines_text_def js_split_line)

lemma js_join_lines: "js_join [newline] (bs @ [[]]) = lines_text bs"
proof (induction bs)
  case Nil
  show ?case by (simp add: lines_text_def)
next
  case (Cons b bs)
  then show ?case
    by (cases bs) (simp_all add: lines_text_def)
qed


subsection \<open>A line of the log has no newline\<close>

lemma digit_not_newline: "d < 10 \<Longrightarrow> digit d \<noteq> newline"
proof
  assume "d < 10" "digit d = newline"
  then have "(of_char (digit d) :: nat) = of_char newline" by simp
  then show False using \<open>d < 10\<close> by (simp add: digit_def newline_def)
qed

lemma show_nat_no_newline: "newline \<notin> set (show_nat n)"
proof (induction n rule: show_nat.induct)
  case (1 n)
  show ?case
  proof (cases "n < 10")
    case True
    then show ?thesis using digit_not_newline [of n] by (subst show_nat.simps) auto
  next
    case False
    have "n mod 10 < 10" by simp
    then have "digit (n mod 10) \<noteq> newline" by (rule digit_not_newline)
    then show ?thesis using False 1 by (subst show_nat.simps) auto
  qed
qed

lemma show_int_no_newline: "newline \<notin> set (show_int i)"
proof -
  have "newline \<notin> set ''-''" by (simp add: newline_def)
  then show ?thesis by (simp add: show_int_def show_nat_no_newline)
qed

lemma toFixed1_no_newline: "newline \<notin> set (toFixed1 x)"
proof -
  have "newline \<notin> set ''-''" "newline \<notin> set ''.''" by (simp_all add: newline_def)
  then show ?thesis by (simp add: toFixed1_def Let_def show_nat_no_newline)
qed

lemma toUpperCase_no_newline: "newline \<notin> set l \<Longrightarrow> newline \<notin> set (toUpperCase l)"
proof (induction l)
  case Nil
  show ?case by (simp add: toUpperCase_def)
next
  case (Cons c l)
  have "char_of ((of_char c :: nat) - 32) \<noteq> newline"
    if "97 \<le> (of_char c :: nat)" "(of_char c :: nat) \<le> 122"
  proof
    assume "char_of ((of_char c :: nat) - 32) = newline"
    then have "(of_char (char_of ((of_char c :: nat) - 32)) :: nat) = of_char newline" by simp
    then show False using that by (simp add: newline_def)
  qed
  then show ?case using Cons by (auto simp: toUpperCase_def)
qed

lemma log_line_no_newline:
  assumes "newline \<notin> set timestamp" "newline \<notin> set l"
  shows "newline \<notin> set (log_line timestamp l s)"
proof -
  have lit: "newline \<notin> set ''['' " "newline \<notin> set ''] Quality: ''" "newline \<notin> set '' | ''"
    "newline \<notin> set ''Packet Loss: ''" "newline \<notin> set ''% | ''" "newline \<notin> set ''RTT: ''"
    "newline \<notin> set ''ms''" "newline \<notin> set ''undefined''"
    by (simp_all add: newline_def)
  have a: "newline \<notin> set (case s_packet_loss s of None \<Rightarrow> ''undefined'' | Some p \<Rightarrow> toFixed1 p)"
    using lit(8) toFixed1_no_newline by (cases "s_packet_loss s") simp_all
  have b: "newline \<notin> set (case s_rtt s of None \<Rightarrow> ''undefined'' | Some t \<Rightarrow> show_int t)"
    using lit(8) show_int_no_newline by (cases "s_rtt s") simp_all
  show ?thesis
    unfolding log_line_def set_append
    using assms toUpperCase_no_newline [OF assms(2)] lit a b by blast
qed



subsection \<open>What an event does to the log\<close>

lemma updateNetworkUI_networkLog: "networkLog (updateNetworkUI data d) = networkLog d"
  by (simp add: updateNetworkUI_def Let_def split: option.splits)

lemma slice_last_lines:
  "slice_last 50 (bs @ [[]]) = drop (length bs - 49) bs @ [[]]"
  by (simp add: slice_last_def)

lemma logNetworkEvent_lines:
  assumes log: "networkLog d = lines_text bs"
    and free: "\<forall>b\<in>set bs. newline \<notin> set b"
    and lv: "level data = Some l" and st: "stats data = Some s"
    and line: "newline \<notin> set (log_line timestamp l s)"
  shows "logNetworkEvent data timestamp d =
           Returns (d\<lparr>networkLog :=
             lines_text (drop (Suc (length bs) - 49) (bs @ [log_line timestamp l s]))\<rparr>)"
proof -
  let ?x = "log_line timestamp l s"
  have tx: "networkLog d @ ?x @ [newline] = lines_text (bs @ [?x])"
    by (simp add: log lines_text_def)
  have "\<forall>b\<in>set (bs @ [?x]). newline \<notin> set b"
    using free line by simp
  then have "js_split newline (lines_text (bs @ [?x])) = (bs @ [?x]) @ [[]]"
    by (rule js_split_lines)
  then have sp: "js_split newline (networkLog d @ ?x @ [newline]) = (bs @ [?x]) @ [[]]"
    by (simp only: tx)
  have unfolded: "logNetworkEvent data timestamp d =
      (if length ((bs @ [?x]) @ [[]]) > 50
       then Returns (d\<lparr>networkLog := js_join [newline] (slice_last 50 ((bs @ [?x]) @ [[]]))\<rparr>)
       else Returns (d\<lparr>networkLog := networkLog d @ ?x @ [newline]\<rparr>))"
    unfolding logNetworkEvent_def lv st option.case Let_def
    by (simp add: sp del: append_assoc)
  show ?thesis
  proof (cases "length ((bs @ [?x]) @ [[]]) > 50")
    case True
    have "js_join [newline] (slice_last 50 ((bs @ [?x]) @ [[]]))
            = lines_text (drop (length (bs @ [?x]) - 49) (bs @ [?x]))"
      unfolding slice_last_lines js_join_lines ..
    then show ?thesis
      unfolding unfolded using True by simp
  next
    case False
    then have short: "drop (Suc (length bs) - 49) (bs @ [?x]) = bs @ [?x]" by simp
    show ?thesis
      unfolding unfolded short using False by (simp add: tx del: append_assoc)
  qed
qed

lemma drop_last_49:
  "drop (Suc (length (drop (n - 49) xs)) - 49) (drop (n - 49) xs @ [x]) = drop (Suc n - 49) (xs @ [x])"
  if "n = length xs"
proof (cases "n \<le> 49")
  case True
  then show ?thesis using that by simp
next
  case False
  then have "length (drop (n - 49) xs) = 49" using that by simp
  moreover have "Suc (length xs - 49) = length xs - 48" using False that by arith
  ultimately show ?thesis using False that by simp
qed

lemma deliver_snoc:
  "deliver (evs @ [(data, timestamp)]) d = state_of (on_quality_update data timestamp (deliver evs d))"
  by (simp add: deliver_def)

lemma deliver_log:
  assumes "\<forall>e\<in>set evs. wf_event e" and "networkLog d = []"
  shows "networkLog (deliver evs d) = lines_text (drop (length evs - 49) (map entry_of evs))"
  using assms(1)
proof (induction evs rule: rev_induct)
  case Nil
  show ?case by (simp add: deliver_def assms(2) lines_text_def)
next
  case (snoc e evs)
  obtain data timestamp where e: "e = (data, timestamp)" by (cases e)
  from snoc.prems have "wf_event (data, timestamp)" by (simp add: e)
  then obtain l s where lv: "level data = Some l" and st: "stats data = Some s"
    and free: "newline \<notin> set l" "newline \<notin> set timestamp"
    by (auto simp: wf_event_def split: option.splits)
  have line: "newline \<notin> set (log_line timestamp l s)"
    using free by (simp add: log_line_no_newline)
  have entry: "entry_of (data, timestamp) = log_line timestamp l s"
    by (simp add: entry_of_def lv st)
  let ?d = "updateNetworkUI data (deliver evs d)"
  let ?bs = "drop (length evs - 49) (map entry_of evs)"
  have log: "networkLog ?d = lines_text ?bs"
    using snoc by (simp add: updateNetworkUI_networkLog)
  have allfree: "\<forall>b\<in>set ?bs. newline \<notin> set b"
  proof
    fix b assume "b \<in> set ?bs"
    then have "b \<in> set (map entry_of evs)" by (rule in_set_dropD)
    then obtain e' where e': "e' \<in> set evs" "b = entry_of e'" by auto
    obtain data' timestamp' where p: "e' = (data', timestamp')" by (cases e')
    from snoc.prems e'(1) have "wf_event (data', timestamp')" by (simp add: p)
    then obtain l' s' where "level data' = Some l'" "stats data' = Some s'"
      "newline \<notin> set l'" "newline \<notin> set timestamp'"
      by (auto simp: wf_event_def split: option.splits)
    then show "newline \<notin> set b"
      by (simp add: e'(2) p entry_of_def log_line_no_newline)
  qed
  have len: "length evs = length (map entry_of evs)" by simp
  have "networkLog (deliver (evs @ [e]) d) =
        lines_text (drop (Suc (length ?bs) - 49) (?bs @ [log_line timestamp l s]))"
    unfolding e deliver_snoc on_quality_update_def
    by (simp add: logNetworkEvent_lines [OF log allfree lv st line])
  also have "\<dots> = lines_text (drop (Suc (length evs) - 49) (map entry_of evs @ [log_line timestamp l s]))"
    using drop_last_49 [OF len] by simp
  finally show ?case by (simp add: e entry)
qed



subsection \<open>Fifty-one events\<close>

lemma wf_example_event: "wf_event (example_event i)"
  by (simp add: wf_event_def example_event_def newline_def)

lemma entry_of_no_newline: "wf_event e \<Longrightarrow> newline \<notin> set (entry_of e)"
  by (cases e) (auto simp: wf_event_def entry_of_def log_line_no_newline split: option.splits)


text \<open>
  Claim C1, the code at the failing input. Events 1 to 51 are delivered to the listener
  on a page whose log is empty. The log then splits at the newlines into the lines of
  events 3 to 51, which are 49 lines, and the empty string after the last newline: the
  50 elements that \<open>slice(-50)\<close> keeps include that empty string, so the line of event
  2, one of the 50 most recent, is gone.
\<close>

theorem log_after_51_events_has_49_lines:
  "js_split newline (networkLog (deliver (map example_event [1..<52]) dom0))
     = map (\<lambda>i. entry_of (example_event i)) [3..<52] @ [[]] \<and>
   length (map (\<lambda>i. entry_of (example_event i)) [3..<52]) = 49"
proof -
  have wf: "\<forall>e\<in>set (map example_event [1..<52]). wf_event e"
    by (simp add: wf_example_event)
  have empty: "networkLog dom0 = []"
    by (simp add: dom0_def)
  have "drop (length (map example_event [1..<52]) - 49) (map entry_of (map example_event [1..<52]))
          = map (\<lambda>i. entry_of (example_event i)) [3..<52]"
    by (simp add: drop_map comp_def eval_nat_numeral del: upt_rec_numeral)
  with deliver_log [OF wf empty]
  have log: "networkLog (deliver (map example_event [1..<52]) dom0)
          = lines_text (map (\<lambda>i. entry_of (example_event i)) [3..<52])"
    by simp
  have "\<forall>b\<in>set (map (\<lambda>i. entry_of (example_event i)) [3..<52]). newline \<notin> set b"
    by (auto simp: entry_of_no_newline wf_example_event)
  from js_split_lines [OF this] show ?thesis
    unfolding log by (simp del: upt_rec_numeral)
qed


subsection \<open>An event without a level\<close>

lemma toFixed1_example: "toFixed1 (5 / 2) = ''2.5''"
  by code_simp

lemma show_int_example: "show_int 123 = ''123''"
  by code_simp


text \<open>
  Claim C2, the code at the failing input. The event has no \<open>level\<close>.
  \<open>updateNetworkUI\<close> renders the triple of \<open>good\<close> and the stats; then
  \<open>logNetworkEvent\<close> reads \<open>data.level.toUpperCase\<close> and the listener raises a
  \<open>TypeError\<close>.
\<close>

theorem missing_level_raises:
  "on_quality_update
     \<lparr>level = None, stats = Some \<lparr>s_packet_loss = Some (5 / 2), s_rtt = Some 123\<rparr>,
      recommendation = Some ''Connection stable''\<rparr> ''12:00:01'' dom0
   = Raises (TypeError ''toUpperCase'')
       (dom0\<lparr>qualityIcon := ''U+1F7E2'',
             qualityText := ''Good Connection - Connection stable'',
             networkStatus := ''network-status quality-good'',
             packetLossElement := ''Packet Loss: 2.5%'',
             rttElement := ''Latency: 123ms''\<rparr>)"
  by (simp add: on_quality_update_def logNetworkEvent_def updateNetworkUI_def select_config_def
      good_def template_def toFixed1_example show_int_example Let_def)

text \<open>
  With a level that \<open>qualityConfig\<close> and its prototype chain do not have, and with the
  stats present, the listener returns and has rendered the triple of \<open>good\<close>.
\<close>

lemma unrecognized_level_renders_good:
  assumes "level data = Some l" and "qualityConfig l = None" and "stats data = Some s"
  shows "\<exists>d'. on_quality_update data timestamp d = Returns d' \<and>
              qualityIcon d' = ''U+1F7E2'' \<and>
              qualityText d' = ''Good Connection - '' @ template (recommendation data) \<and>
              networkStatus d' = ''network-status quality-good''"
  using assms
  by (simp add: on_quality_update_def logNetworkEvent_def updateNetworkUI_def select_config_def
      good_def template_def Let_def)

text \<open>A level that names a property of \<open>Object.prototype\<close> is not rendered as \<open>good\<close>.\<close>

lemma inherited_level_renders_undefined:
  "networkStatus (updateNetworkUI
     \<lparr>level = Some ''constructor'', stats = None, recommendation = Some ''ok''\<rparr> dom0)
   = ''network-status undefined''"
  by (simp add: updateNetworkUI_def select_config_def qualityConfig_def Object_prototype_keys_def
      template_def Let_def)

end
